theory Spec2Isabelle
  imports Main "HOL-Library.Word"
begin

section \<open>NNStreamer single-shot C-API (nnstreamer-capi-single.c)\<close>

text \<open>
  A shallow embedding of \<^verbatim>\<open>api/capi/src/nnstreamer-capi-single.c\<close>: the functions
  \<^verbatim>\<open>ml_single_open\<close>, \<^verbatim>\<open>ml_single_close\<close>, \<^verbatim>\<open>ml_single_invoke\<close>,
  \<^verbatim>\<open>ml_single_get_tensors_info\<close> and \<^verbatim>\<open>ml_single_set_timeout\<close>.  Structs are records,
  enums are datatypes, pointers that may be NULL are options, and every early
  \<^verbatim>\<open>return\<close> and \<^verbatim>\<open>goto\<close> of the source is a branch of the model.

  The macro \<^verbatim>\<open>check_feature_state ()\<close> that opens every API function comes from
  \<^verbatim>\<open>nnstreamer-capi-private.h\<close>, which is not among the sources; the model covers the
  builds in which it expands to nothing.  Calls are modelled one at a time: the
  process-wide lock \<^verbatim>\<open>magic\<close>, taken and released within the prologue of each function,
  is not part of the state, and the mutex of a handle is a flag that makes a call wait
  when another call holds it.
\<close>

subsection \<open>Public types (nnstreamer.h)\<close>

datatype ml_error_e =
    ML_ERROR_NONE
  | ML_ERROR_INVALID_PARAMETER
  | ML_ERROR_STREAMS_PIPE
  | ML_ERROR_TRY_AGAIN
  | ML_ERROR_UNKNOWN
  | ML_ERROR_TIMED_OUT
  | ML_ERROR_NOT_SUPPORTED

datatype ml_tensor_type_e =
    ML_TENSOR_TYPE_INT32
  | ML_TENSOR_TYPE_UINT32
  | ML_TENSOR_TYPE_INT16
  | ML_TENSOR_TYPE_UINT16
  | ML_TENSOR_TYPE_INT8
  | ML_TENSOR_TYPE_UINT8
  | ML_TENSOR_TYPE_FLOAT64
  | ML_TENSOR_TYPE_FLOAT32
  | ML_TENSOR_TYPE_INT64
  | ML_TENSOR_TYPE_UINT64
  | ML_TENSOR_TYPE_UNKNOWN

text \<open>
  The enumeration \<^verbatim>\<open>ml_nnfw_type_e\<close> is used by \<^verbatim>\<open>ml_single_open\<close> but declared in a
  revision of \<^verbatim>\<open>nnstreamer.h\<close> newer than the one among the sources; its five
  enumerators are those named by the \<^verbatim>\<open>switch\<close> statements of \<^verbatim>\<open>ml_single_open\<close>.
\<close>

datatype ml_nnfw_type_e =
    ML_NNFW_TYPE_ANY
  | ML_NNFW_TYPE_CUSTOM_FILTER
  | ML_NNFW_TYPE_TENSORFLOW_LITE
  | ML_NNFW_TYPE_TENSORFLOW
  | ML_NNFW_TYPE_NNFW

text \<open>\<^verbatim>\<open>ml_nnfw_hw_e\<close> is only handed on to the availability check: its integer value.\<close>

type_synonym ml_nnfw_hw_e = nat

definition ML_TENSOR_RANK_LIMIT :: nat where
  "ML_TENSOR_RANK_LIMIT = 4"

definition ML_TENSOR_SIZE_LIMIT :: nat where
  "ML_TENSOR_SIZE_LIMIT = 16"

text \<open>\<^verbatim>\<open>ml_tensor_dim\<close> is \<^verbatim>\<open>unsigned int[ML_TENSOR_RANK_LIMIT]\<close>: a list of four numbers.\<close>

type_synonym ml_tensor_dim = "nat list"

record ml_tensor_info_s =
  name :: "string option"
  type :: ml_tensor_type_e
  dimension :: ml_tensor_dim

record ml_tensors_info_s =
  num_tensors :: nat
  info :: "ml_tensor_info_s list"

type_synonym byte = "8 word"

text \<open>
  \<^verbatim>\<open>ml_tensor_data_s\<close>: \<^verbatim>\<open>tensor\<close> is a pointer to a memory block (NULL is \<open>None\<close>,
  otherwise the bytes it points to), \<^verbatim>\<open>size\<close> the byte length the struct declares.
  The fields \<^verbatim>\<open>size\<close> and \<^verbatim>\<open>num_tensors\<close> carry a suffix: HOL has a constant \<open>size\<close>, and
  the descriptor struct has a field \<^verbatim>\<open>num_tensors\<close> of its own.
\<close>

record ml_tensor_data_s =
  tensor :: "byte list option"
  size_d :: nat

record ml_tensors_data_s =
  num_tensors_d :: nat
  tensors :: "ml_tensor_data_s list"

subsection \<open>GLib string helpers used by the framework resolution\<close>

text \<open>
  \<^verbatim>\<open>g_ascii_tolower\<close> maps the 26 ASCII capitals to their lower-case letters and leaves
  every other byte alone; \<^verbatim>\<open>g_ascii_strdown\<close> applies it to each byte of a string.
\<close>

definition g_ascii_tolower :: "char \<Rightarrow> char" where
  "g_ascii_tolower c =
     (case map_of (zip ''ABCDEFGHIJKLMNOPQRSTUVWXYZ'' ''abcdefghijklmnopqrstuvwxyz'') c of
        Some l \<Rightarrow> l
      | None \<Rightarrow> c)"

definition g_ascii_strdown :: "string \<Rightarrow> string" where
  "g_ascii_strdown str = map g_ascii_tolower str"

text \<open>
  \<^verbatim>\<open>g_str_has_suffix\<close>: false when the string is shorter than the suffix, otherwise the
  comparison of the string's tail with the suffix.
\<close>

definition g_str_has_suffix :: "string \<Rightarrow> string \<Rightarrow> bool" where
  "g_str_has_suffix str sfx =
     (let str_len = length str; suffix_len = length sfx in
      if str_len < suffix_len then False
      else drop (str_len - suffix_len) str = sfx)"

text \<open>
  Modelled from the spec: \<^verbatim>\<open>NNSTREAMER_SO_FILE_EXTENSION\<close> is a macro of
  \<^verbatim>\<open>nnstreamer_conf.h\<close>, which is not among the sources.  The spec names it the
  shared-library extension; it is the \<^verbatim>\<open>".so"\<close> that \<^verbatim>\<open>nnstreamer_conf.c\<close> itself
  compares file names with.
\<close>

definition NNSTREAMER_SO_FILE_EXTENSION :: string where
  "NNSTREAMER_SO_FILE_EXTENSION = ''.so''"

subsection \<open>ml\_single\_open, step 1: determine the framework\<close>

text \<open>
  Lines 217 to 266 of the source: the path is lower-cased, then the \<^verbatim>\<open>switch\<close> on the
  hint either replaces \<^verbatim>\<open>ML_NNFW_TYPE_ANY\<close> by the framework of the extension or checks
  the extension against the hint.  The result is the updated \<^verbatim>\<open>nnfw\<close> and \<^verbatim>\<open>status\<close>;
  \<^verbatim>\<open>ml_single_open\<close> returns \<^verbatim>\<open>status\<close> when it is not \<^verbatim>\<open>ML_ERROR_NONE\<close>.
\<close>

definition determine_nnfw :: "string \<Rightarrow> ml_nnfw_type_e \<Rightarrow> ml_nnfw_type_e \<times> ml_error_e" where
  "determine_nnfw model nnfw =
     (let path_down = g_ascii_strdown model in
      case nnfw of
        ML_NNFW_TYPE_ANY \<Rightarrow>
          if g_str_has_suffix path_down ''.tflite'' then
            (ML_NNFW_TYPE_TENSORFLOW_LITE, ML_ERROR_NONE)
          else if g_str_has_suffix path_down ''.pb'' then
            (ML_NNFW_TYPE_TENSORFLOW, ML_ERROR_NONE)
          else if g_str_has_suffix path_down NNSTREAMER_SO_FILE_EXTENSION then
            (ML_NNFW_TYPE_CUSTOM_FILTER, ML_ERROR_NONE)
          else (nnfw, ML_ERROR_INVALID_PARAMETER)
      | ML_NNFW_TYPE_CUSTOM_FILTER \<Rightarrow>
          if \<not> g_str_has_suffix path_down NNSTREAMER_SO_FILE_EXTENSION then
            (nnfw, ML_ERROR_INVALID_PARAMETER)
          else (nnfw, ML_ERROR_NONE)
      | ML_NNFW_TYPE_TENSORFLOW_LITE \<Rightarrow>
          if \<not> g_str_has_suffix path_down ''.tflite'' then
            (nnfw, ML_ERROR_INVALID_PARAMETER)
          else (nnfw, ML_ERROR_NONE)
      | ML_NNFW_TYPE_TENSORFLOW \<Rightarrow>
          if \<not> g_str_has_suffix path_down ''.pb'' then
            (nnfw, ML_ERROR_INVALID_PARAMETER)
          else (nnfw, ML_ERROR_NONE)
      | ML_NNFW_TYPE_NNFW \<Rightarrow> (nnfw, ML_ERROR_NOT_SUPPORTED))"

subsection \<open>Helpers of nnstreamer-capi-util.c\<close>

text \<open>
  Modelled from the spec: \<^verbatim>\<open>ml_tensor_info_get_size\<close> is not among the sources.  The
  spec's data model gives the computed byte size of a descriptor
  entry as the product of its dimensions times the element width; the width of the
  eleven element types is the one their names state, and the unknown type has none.
\<close>

fun tensor_element_size :: "ml_tensor_type_e \<Rightarrow> nat" where
  "tensor_element_size ML_TENSOR_TYPE_INT8 = 1"
| "tensor_element_size ML_TENSOR_TYPE_UINT8 = 1"
| "tensor_element_size ML_TENSOR_TYPE_INT16 = 2"
| "tensor_element_size ML_TENSOR_TYPE_UINT16 = 2"
| "tensor_element_size ML_TENSOR_TYPE_INT32 = 4"
| "tensor_element_size ML_TENSOR_TYPE_UINT32 = 4"
| "tensor_element_size ML_TENSOR_TYPE_FLOAT32 = 4"
| "tensor_element_size ML_TENSOR_TYPE_INT64 = 8"
| "tensor_element_size ML_TENSOR_TYPE_UINT64 = 8"
| "tensor_element_size ML_TENSOR_TYPE_FLOAT64 = 8"
| "tensor_element_size ML_TENSOR_TYPE_UNKNOWN = 0"

definition ml_tensor_info_get_size :: "ml_tensor_info_s \<Rightarrow> nat" where
  "ml_tensor_info_get_size i = tensor_element_size (type i) * prod_list (dimension i)"

text \<open>
  Modelled from the spec: \<^verbatim>\<open>ml_tensors_info_validate\<close> is not among the sources.  The
  spec's invariant of a valid Tensor-Set Descriptor: the count is at most
  \<^verbatim>\<open>ML_TENSOR_SIZE_LIMIT\<close>, and every active entry has a type other than unknown and
  every dimension at least one.  The function reports a status and the verdict it stores
  through its \<^verbatim>\<open>valid\<close> argument.  The arrays of the structs are lists here, so the
  verdict also covers the lengths that the C types fix.
\<close>

definition ml_tensor_info_validate :: "ml_tensor_info_s \<Rightarrow> bool" where
  "ml_tensor_info_validate i =
     (type i \<noteq> ML_TENSOR_TYPE_UNKNOWN \<and>
      length (dimension i) = ML_TENSOR_RANK_LIMIT \<and>
      list_all (\<lambda>d. 1 \<le> d) (dimension i))"

definition ml_tensors_info_validate :: "ml_tensors_info_s \<Rightarrow> ml_error_e \<times> bool" where
  "ml_tensors_info_validate i =
     (ML_ERROR_NONE,
      num_tensors i \<le> ML_TENSOR_SIZE_LIMIT \<and>
      length (info i) = ML_TENSOR_SIZE_LIMIT \<and>
      list_all ml_tensor_info_validate (take (num_tensors i) (info i)))"

text \<open>
  Modelled from the spec: \<^verbatim>\<open>ml_tensors_info_initialize\<close> is not among the sources.  An
  initialised descriptor has no active entry; each of its \<^verbatim>\<open>ML_TENSOR_SIZE_LIMIT\<close> slots
  has no name, the unknown type and zero dimensions.
\<close>

definition ml_tensor_info_initial :: ml_tensor_info_s where
  "ml_tensor_info_initial =
     \<lparr>name = None, type = ML_TENSOR_TYPE_UNKNOWN, dimension = replicate ML_TENSOR_RANK_LIMIT 0\<rparr>"

definition ml_tensors_info_initialize :: ml_tensors_info_s where
  "ml_tensors_info_initialize =
     \<lparr>num_tensors = 0, info = replicate ML_TENSOR_SIZE_LIMIT ml_tensor_info_initial\<rparr>"

text \<open>
  Modelled from the spec: \<^verbatim>\<open>ml_tensors_data_create\<close> is not among the sources.  The spec:
  allocate a fresh Data Buffer sized per the given descriptor.  The buffer has the
  descriptor's count; block \<open>i\<close> of the active ones has the computed byte size of entry
  \<open>i\<close> and zeroed memory; the unused slots hold NULL.  The spec describes no failure of
  the allocation, so the status is always \<^verbatim>\<open>ML_ERROR_NONE\<close>.
\<close>

definition ml_tensors_data_create ::
  "ml_tensors_info_s \<Rightarrow> ml_error_e \<times> ml_tensors_data_s option" where
  "ml_tensors_data_create i =
     (ML_ERROR_NONE,
      Some \<lparr>num_tensors_d = num_tensors i,
            tensors =
              map (\<lambda>ti. \<lparr>tensor = Some (replicate (ml_tensor_info_get_size ti) 0),
                         size_d = ml_tensor_info_get_size ti\<rparr>)
                  (take (num_tensors i) (info i))
              @ replicate (ML_TENSOR_SIZE_LIMIT - num_tensors i) \<lparr>tensor = None, size_d = 0\<rparr>\<rparr>)"

subsection \<open>The streaming pipeline behind a handle\<close>

text \<open>
  Modelled from the spec: the pipeline \<^verbatim>\<open>appsrc ! tensor_filter ! appsink\<close> is run by
  GStreamer, outside this repository.  By sections 5 and 6 of the spec, frames pushed
  into the input stage are processed by the inference stage in order, each taking some
  time, and then arrive at the output stage, which queues them.  A frame is the list of
  its memory blocks.  \<open>in_flight\<close> holds the frames the inference stage has not
  delivered yet, oldest first, each with the time in nanoseconds it still needs once it
  is at the head.
\<close>

type_synonym GstBuffer = "byte list list"

datatype GstFlowReturn =
    GST_FLOW_OK
  | GST_FLOW_NOT_LINKED
  | GST_FLOW_FLUSHING
  | GST_FLOW_EOS
  | GST_FLOW_NOT_NEGOTIATED
  | GST_FLOW_ERROR
  | GST_FLOW_NOT_SUPPORTED

text \<open>
  What the \<^verbatim>\<open>tensor_filter\<close> element reports for one direction through its properties
  \<^verbatim>\<open>input\<close>/\<^verbatim>\<open>output\<close>, \<^verbatim>\<open>inputtype\<close>/\<^verbatim>\<open>outputtype\<close> and \<^verbatim>\<open>inputname\<close>/\<^verbatim>\<open>outputname\<close>.
  The parsers of these strings (\<^verbatim>\<open>gst_tensors_info_parse_dimensions_string\<close> and its
  siblings) are not among the sources; a property is held as the list of entries its
  string parses to.
\<close>

record tensor_filter_props =
  prop_dimensions :: "ml_tensor_dim list"
  prop_types :: "ml_tensor_type_e list"
  prop_names :: "string option list"

record ml_pipeline =
  in_flight :: "(nat \<times> GstBuffer) list"
  sink_queue :: "GstBuffer list"
  sink_eos :: bool
  sink_max_buffers :: nat
  sink_drop :: bool
  src_caps :: "ml_tensors_info_s option"
  sink_caps :: "ml_tensors_info_s option"
  playing :: bool
  filter_invoke :: "GstBuffer \<Rightarrow> GstBuffer"
  filter_input_props :: tensor_filter_props
  filter_output_props :: tensor_filter_props

text \<open>
  A frame arriving at the appsink: \<^verbatim>\<open>max-buffers\<close> 0 means an unbounded queue; a full
  queue drops its oldest sample when \<^verbatim>\<open>drop\<close> is set and otherwise makes the streaming
  thread wait (\<open>None\<close>).
\<close>

definition appsink_arrive :: "nat \<Rightarrow> bool \<Rightarrow> GstBuffer list \<Rightarrow> GstBuffer \<Rightarrow> GstBuffer list option" where
  "appsink_arrive max_bufs drp q b =
     (if max_bufs = 0 \<or> length q < max_bufs then Some (q @ [b])
      else if drp then Some (tl q @ [b])
      else None)"

text \<open>The pipeline's own progress while \<open>t\<close> nanoseconds pass and nobody pulls.\<close>

fun frames_elapse ::
  "nat \<Rightarrow> nat \<Rightarrow> bool \<Rightarrow> (nat \<times> GstBuffer) list \<Rightarrow> GstBuffer list
   \<Rightarrow> (nat \<times> GstBuffer) list \<times> GstBuffer list" where
  "frames_elapse t max_bufs drp [] q = ([], q)"
| "frames_elapse t max_bufs drp ((r, b) # fs) q =
     (if r \<le> t then
        (case appsink_arrive max_bufs drp q b of
           Some q' \<Rightarrow> frames_elapse (t - r) max_bufs drp fs q'
         | None \<Rightarrow> ((0, b) # fs, q))
      else ((r - t, b) # fs, q))"

definition pipeline_elapse :: "nat \<Rightarrow> ml_pipeline \<Rightarrow> ml_pipeline" where
  "pipeline_elapse t p =
     (case frames_elapse t (sink_max_buffers p) (sink_drop p) (in_flight p) (sink_queue p) of
        (fs, q) \<Rightarrow> p\<lparr>in_flight := fs, sink_queue := q\<rparr>)"

text \<open>
  \<^verbatim>\<open>gst_app_src_push_buffer\<close>: the environment decides the flow return; an accepted
  frame joins the frames in flight with the latency of its inference and the output the
  loaded model computes for it.  By step 2 of the spec's invoke, ownership of the frame
  passes to the streaming engine for this push: the call takes the caller's reference
  to the buffer whatever it returns, and a buffer it does not accept is released by
  the call itself.
\<close>

record invoke_env =
  push_ret :: GstFlowReturn
  latency :: nat

definition gst_app_src_push_buffer ::
  "ml_pipeline \<Rightarrow> GstBuffer \<Rightarrow> invoke_env \<Rightarrow> GstFlowReturn \<times> ml_pipeline" where
  "gst_app_src_push_buffer p buffer env =
     (if push_ret env = GST_FLOW_OK
      then (GST_FLOW_OK, p\<lparr>in_flight := in_flight p @ [(latency env, filter_invoke p buffer)]\<rparr>)
      else (push_ret env, p))"

text \<open>
  \<^verbatim>\<open>gst_app_sink_pull_sample\<close> blocks until a sample or end-of-stream is available: it
  takes the oldest queued sample, else waits for the oldest frame in flight, else
  returns NULL at end-of-stream, and otherwise never returns (\<open>None\<close>).
\<close>

definition gst_app_sink_pull_sample :: "ml_pipeline \<Rightarrow> (GstBuffer option \<times> ml_pipeline) option" where
  "gst_app_sink_pull_sample p =
     (case sink_queue p of
        b # q \<Rightarrow> Some (Some b, p\<lparr>sink_queue := q\<rparr>)
      | [] \<Rightarrow>
          (case in_flight p of
             (r, b) # fs \<Rightarrow> Some (Some b, p\<lparr>in_flight := fs\<rparr>)
           | [] \<Rightarrow> if sink_eos p then Some (None, p) else None))"

text \<open>
  \<^verbatim>\<open>gst_app_sink_try_pull_sample\<close> waits at most \<open>tmo\<close> nanoseconds: it takes the oldest
  queued sample, else the oldest frame in flight if that arrives in time, else returns
  NULL after the frame in flight has progressed by \<open>tmo\<close>.
\<close>

definition gst_app_sink_try_pull_sample :: "ml_pipeline \<Rightarrow> nat \<Rightarrow> GstBuffer option \<times> ml_pipeline" where
  "gst_app_sink_try_pull_sample p tmo =
     (case sink_queue p of
        b # q \<Rightarrow> (Some b, p\<lparr>sink_queue := q\<rparr>)
      | [] \<Rightarrow>
          (case in_flight p of
             (r, b) # fs \<Rightarrow>
               if r \<le> tmo then (Some b, p\<lparr>in_flight := fs\<rparr>)
               else (None, p\<lparr>in_flight := (r - tmo, b) # fs\<rparr>)
           | [] \<Rightarrow> (None, p)))"

text \<open>
  Modelled from the spec: \<^verbatim>\<open>tryDrainFrame(outputStage)\<close> of section 6 returns at once
  with a buffered frame or with "empty"; it is the collaborator the spec names for the
  cleanup step, stated here for comparison with the call the source makes.
\<close>

definition tryDrainFrame :: "ml_pipeline \<Rightarrow> GstBuffer option \<times> ml_pipeline" where
  "tryDrainFrame p =
     (case sink_queue p of
        b # q \<Rightarrow> (Some b, p\<lparr>sink_queue := q\<rparr>)
      | [] \<Rightarrow> (None, p))"

subsection \<open>The handle\<close>

definition ML_SINGLE_MAGIC :: "32 word" where
  "ML_SINGLE_MAGIC = 0xfeedfeed"

definition SINGLE_DEFAULT_TIMEOUT :: "32 word" where
  "SINGLE_DEFAULT_TIMEOUT = 3000"

definition GST_MSECOND :: "64 word" where
  "GST_MSECOND = 1000000"

text \<open>
  Modelled from the spec: \<^verbatim>\<open>ML_SINGLE_SUPPORT_TIMEOUT\<close> is defined by the source when the
  GStreamer headers, which are not among the sources, announce version 1.10 or later.
  The spec describes the bridge with a bounded wait and a configurable timeout, which
  is the build in which the macro is defined.
\<close>

definition ML_SINGLE_SUPPORT_TIMEOUT :: bool where
  "ML_SINGLE_SUPPORT_TIMEOUT = True"

text \<open>
  A \<^verbatim>\<open>GstElement *\<close> is NULL or a reference to a named element of the pipeline.  The
  struct \<^verbatim>\<open>ml_single\<close> holds the pipeline it owns by value; \<^verbatim>\<open>lock\<close> is the mutex, true
  while a call holds it.  The field \<^verbatim>\<open>filter\<close> carries a suffix, as HOL has a constant of
  that name.
\<close>

type_synonym GstElement = string

record ml_single =
  pipe :: ml_pipeline
  src :: "GstElement option"
  sink :: "GstElement option"
  filter_elem :: "GstElement option"
  in_info :: ml_tensors_info_s
  out_info :: ml_tensors_info_s
  magic :: "32 word"
  lock :: bool
  clear_previous_buffer :: bool
  timeout :: "32 word"

text \<open>
  How a call ends: it returns, or it never returns (it waits for the handle's mutex
  while another call holds it, or for a sample that never arrives), or it leaves the
  defined behaviour of C (a \<^verbatim>\<open>memcpy\<close> outside of a block, the release of a buffer the
  caller no longer owns).
\<close>

datatype 'a outcome = Returns 'a | Blocks | Undefined

subsection \<open>ml\_single\_get\_tensors\_info\_from\_filter\<close>

text \<open>
  Lines 89 to 146.  The number of tensors is the number of entries of the dimension
  property (at most \<^verbatim>\<open>ML_TENSOR_SIZE_LIMIT\<close> are parsed); a different number of types or
  names is only logged.  Entry \<open>i\<close> takes its type and name from the type and name
  properties where they have an entry \<open>i\<close> and is left as initialised otherwise.  The
  filter element is read through the pipeline that owns it.
\<close>

definition ml_single_get_tensors_info_from_filter :: "ml_pipeline \<Rightarrow> bool \<Rightarrow> ml_tensors_info_s" where
  "ml_single_get_tensors_info_from_filter p is_input =
     (let props = (if is_input then filter_input_props p else filter_output_props p);
          dims = take ML_TENSOR_SIZE_LIMIT (prop_dimensions props);
          types = take ML_TENSOR_SIZE_LIMIT (prop_types props);
          names = take ML_TENSOR_SIZE_LIMIT (prop_names props);
          rank = length dims
      in \<lparr>num_tensors = rank,
          info =
            map (\<lambda>i. if i < rank
                      then \<lparr>name = (if i < length names then names ! i else None),
                            type = (if i < length types then types ! i else ML_TENSOR_TYPE_UNKNOWN),
                            dimension = dims ! i\<rparr>
                      else ml_tensor_info_initial)
                [0..<ML_TENSOR_SIZE_LIMIT]\<rparr>)"

subsection \<open>ml\_single\_invoke\<close>

text \<open>
  Lines 518 to 533: the input must have as many blocks as the input descriptor has
  tensors, and each block must be non-NULL and of the byte size of its entry.
\<close>

definition invoke_validate_input :: "ml_single \<Rightarrow> ml_tensors_data_s \<Rightarrow> ml_error_e" where
  "invoke_validate_input single_h in_data =
     (if num_tensors_d in_data \<noteq> num_tensors (in_info single_h) then ML_ERROR_INVALID_PARAMETER
      else if list_ex
                (\<lambda>i. let raw_size = ml_tensor_info_get_size (info (in_info single_h) ! i) in
                      tensor (tensors in_data ! i) = None \<or> size_d (tensors in_data ! i) \<noteq> raw_size)
                [0..<num_tensors_d in_data]
      then ML_ERROR_INVALID_PARAMETER
      else ML_ERROR_NONE)"

text \<open>
  Lines 535 to 548: when the previous call timed out, one sample is pulled from the
  appsink with \<^verbatim>\<open>gst_app_sink_pull_sample\<close> and dropped, and the flag is cleared.
\<close>

definition invoke_clear_previous :: "ml_single \<Rightarrow> ml_single option" where
  "invoke_clear_previous single_h =
     (if ML_SINGLE_SUPPORT_TIMEOUT \<and> clear_previous_buffer single_h then
        (case gst_app_sink_pull_sample (pipe single_h) of
           None \<Rightarrow> None
         | Some (sample, p) \<Rightarrow> Some (single_h\<lparr>pipe := p, clear_previous_buffer := False\<rparr>))
      else Some single_h)"

text \<open>
  Lines 550 to 558: the frame pushed wraps, for each block, \<^verbatim>\<open>size\<close> bytes at \<^verbatim>\<open>tensor\<close>.
\<close>

definition invoke_wrap_input :: "ml_tensors_data_s \<Rightarrow> GstBuffer" where
  "invoke_wrap_input in_data =
     map (\<lambda>i. take (size_d (tensors in_data ! i)) (the (tensor (tensors in_data ! i))))
         [0..<num_tensors_d in_data]"

text \<open>
  Lines 568 to 575: the wait for the result, bounded by \<^verbatim>\<open>GST_MSECOND * timeout\<close>
  nanoseconds (a 64-bit product) when timeouts are supported.
\<close>

definition invoke_pull_result :: "ml_single \<Rightarrow> ml_pipeline \<Rightarrow> (GstBuffer option \<times> ml_pipeline) option" where
  "invoke_pull_result single_h p =
     (if ML_SINGLE_SUPPORT_TIMEOUT
      then Some (gst_app_sink_try_pull_sample p (unat (GST_MSECOND * ucast (timeout single_h))))
      else gst_app_sink_pull_sample p)"

text \<open>
  Lines 597 to 606: memory \<open>i\<close> of the sample's buffer is copied to the start of block
  \<open>i\<close> of the result, for each of the result's tensors.  A missing memory, a NULL block or
  a memory longer than the block allocated takes \<^verbatim>\<open>memcpy\<close> outside of the block
  (\<open>None\<close>).
\<close>

fun invoke_copy_blocks :: "ml_tensor_data_s list \<Rightarrow> GstBuffer \<Rightarrow> nat \<Rightarrow> ml_tensor_data_s list option" where
  "invoke_copy_blocks ts ms 0 = Some ts"
| "invoke_copy_blocks (t # ts) (m # ms) (Suc n) =
     (case tensor t of
        None \<Rightarrow> None
      | Some old \<Rightarrow>
          if length m \<le> length old then
            map_option ((#) (t\<lparr>tensor := Some (m @ drop (length m) old)\<rparr>))
                       (invoke_copy_blocks ts ms n)
          else None)"
| "invoke_copy_blocks ts ms (Suc n) = None"

definition invoke_copy_result :: "ml_tensors_data_s \<Rightarrow> GstBuffer \<Rightarrow> ml_tensors_data_s option" where
  "invoke_copy_result result buffer =
     map_option (\<lambda>ts. result\<lparr>tensors := ts\<rparr>)
                (invoke_copy_blocks (tensors result) buffer (num_tensors_d result))"

text \<open>
  The function.  \<open>single\<close> and \<open>input\<close> are NULL or point to their struct; \<open>output\<close> is
  NULL or points to a slot holding a data pointer.  The result is the status, the slot
  and the struct behind \<open>single\<close> as the call leaves them.

  Lines 560 to 566: when the push is not accepted, the source calls
  \<^verbatim>\<open>gst_buffer_unref (buffer)\<close> before it sets the status to
  \<^verbatim>\<open>ML_ERROR_STREAMS_PIPE\<close>.  The only reference to the buffer went to
  \<^verbatim>\<open>gst_app_src_push_buffer\<close>, which has released it already, so line 563 releases a
  buffer that is gone: the call has left the defined behaviour before it can return
  the status.
\<close>

definition ml_single_invoke ::
  "ml_single option \<Rightarrow> ml_tensors_data_s option \<Rightarrow> ml_tensors_data_s option option \<Rightarrow> invoke_env
   \<Rightarrow> (ml_error_e \<times> ml_tensors_data_s option option \<times> ml_single option) outcome" where
  "ml_single_invoke single input output env =
     (case (single, input, output) of
        (Some single_h, Some in_data, Some _) \<Rightarrow>
          if magic single_h \<noteq> ML_SINGLE_MAGIC then
            Returns (ML_ERROR_INVALID_PARAMETER, output, single)
          else if lock single_h then Blocks
          else if invoke_validate_input single_h in_data \<noteq> ML_ERROR_NONE then
            Returns (invoke_validate_input single_h in_data, Some None, single)
          else
            (case invoke_clear_previous single_h of
               None \<Rightarrow> Blocks
             | Some h1 \<Rightarrow>
                 (case gst_app_src_push_buffer (pipe h1) (invoke_wrap_input in_data) env of
                    (ret, p2) \<Rightarrow>
                      if ret \<noteq> GST_FLOW_OK then Undefined
                      else
                        (case invoke_pull_result h1 p2 of
                           None \<Rightarrow> Blocks
                         | Some (None, p3) \<Rightarrow>
                             if ML_SINGLE_SUPPORT_TIMEOUT then
                               Returns (ML_ERROR_TIMED_OUT, Some None,
                                        Some (h1\<lparr>pipe := p3, clear_previous_buffer := True\<rparr>))
                             else
                               Returns (ML_ERROR_UNKNOWN, Some None, Some (h1\<lparr>pipe := p3\<rparr>))
                         | Some (Some buffer, p3) \<Rightarrow>
                             (case ml_tensors_data_create (out_info h1) of
                                (status, created) \<Rightarrow>
                                  if status \<noteq> ML_ERROR_NONE then
                                    Returns (status, Some created, Some (h1\<lparr>pipe := p3\<rparr>))
                                  else
                                    (case created of
                                       None \<Rightarrow> Undefined
                                     | Some result \<Rightarrow>
                                         (case invoke_copy_result result buffer of
                                            None \<Rightarrow> Undefined
                                          | Some filled \<Rightarrow>
                                              Returns (ML_ERROR_NONE, Some (Some filled),
                                                       Some (h1\<lparr>pipe := p3\<rparr>))))))))
      | _ \<Rightarrow> Returns (ML_ERROR_INVALID_PARAMETER, output, single))"

subsection \<open>ml\_single\_get\_tensors\_info and ml\_single\_set\_timeout\<close>

text \<open>
  Lines 619 to 639; \<open>info\<close> is NULL or points to a slot for the descriptor handle.
  \<^verbatim>\<open>ml_single_get_input_info\<close> and \<^verbatim>\<open>ml_single_get_output_info\<close> call it with
  \<^verbatim>\<open>TRUE\<close> and \<^verbatim>\<open>FALSE\<close>.
\<close>

definition ml_single_get_tensors_info ::
  "ml_single option \<Rightarrow> bool \<Rightarrow> ml_tensors_info_s option option
   \<Rightarrow> (ml_error_e \<times> ml_tensors_info_s option option) outcome" where
  "ml_single_get_tensors_info single is_input info_p =
     (case (single, info_p) of
        (Some single_h, Some _) \<Rightarrow>
          if magic single_h \<noteq> ML_SINGLE_MAGIC then Returns (ML_ERROR_INVALID_PARAMETER, info_p)
          else if lock single_h then Blocks
          else Returns (ML_ERROR_NONE,
                        Some (Some (ml_single_get_tensors_info_from_filter (pipe single_h) is_input)))
      | _ \<Rightarrow> Returns (ML_ERROR_INVALID_PARAMETER, info_p))"

definition ml_single_get_input_info ::
  "ml_single option \<Rightarrow> ml_tensors_info_s option option
   \<Rightarrow> (ml_error_e \<times> ml_tensors_info_s option option) outcome" where
  "ml_single_get_input_info single info_p = ml_single_get_tensors_info single True info_p"

definition ml_single_get_output_info ::
  "ml_single option \<Rightarrow> ml_tensors_info_s option option
   \<Rightarrow> (ml_error_e \<times> ml_tensors_info_s option option) outcome" where
  "ml_single_get_output_info single info_p = ml_single_get_tensors_info single False info_p"

text \<open>Lines 662 to 685; the result is the status and the struct behind \<open>single\<close>.\<close>

definition ml_single_set_timeout ::
  "ml_single option \<Rightarrow> 32 word \<Rightarrow> (ml_error_e \<times> ml_single option) outcome" where
  "ml_single_set_timeout single tmo =
     (if ML_SINGLE_SUPPORT_TIMEOUT then
        (case single of
           None \<Rightarrow> Returns (ML_ERROR_INVALID_PARAMETER, single)
         | Some single_h \<Rightarrow>
             if tmo = 0 then Returns (ML_ERROR_INVALID_PARAMETER, single)
             else if magic single_h \<noteq> ML_SINGLE_MAGIC then
               Returns (ML_ERROR_INVALID_PARAMETER, single)
             else if lock single_h then Blocks
             else Returns (ML_ERROR_NONE, Some (single_h\<lparr>timeout := tmo\<rparr>)))
      else Returns (ML_ERROR_NOT_SUPPORTED, single))"

subsection \<open>ml\_single\_close\<close>

text \<open>
  What the process holds of GStreamer and of the heap: the descriptions handed to
  \<^verbatim>\<open>ml_pipeline_construct\<close> so far, the pipelines constructed and not destroyed, the
  element references obtained from \<^verbatim>\<open>gst_bin_get_by_name\<close> and not released, and the
  \<^verbatim>\<open>ml_single\<close> structs allocated and not freed.
\<close>

record gst_world =
  constructed :: "string list"
  live_pipelines :: nat
  element_refs :: nat
  live_handles :: nat

definition gst_object_unref :: "GstElement option \<Rightarrow> gst_world \<Rightarrow> gst_world" where
  "gst_object_unref e w = (case e of None \<Rightarrow> w | Some _ \<Rightarrow> w\<lparr>element_refs := element_refs w - 1\<rparr>)"

text \<open>
  Modelled from the spec: \<^verbatim>\<open>ml_pipeline_destroy\<close> is not among the sources.  By
  sections 4.3 and 6 of the spec it releases the graph; the status it returns is given
  by the environment.
\<close>

definition ml_pipeline_destroy_graph :: "gst_world \<Rightarrow> gst_world" where
  "ml_pipeline_destroy_graph w = w\<lparr>live_pipelines := live_pipelines w - 1\<rparr>"

text \<open>
  Lines 443 to 486.  The magic is cleared before the mutex is taken; each element
  reference that is not NULL is released, then the pipeline is destroyed, then the
  struct is freed.  The result is the status of \<^verbatim>\<open>ml_pipeline_destroy\<close> and the world.
\<close>

definition ml_single_close :: "ml_single option \<Rightarrow> ml_error_e \<Rightarrow> gst_world \<Rightarrow> (ml_error_e \<times> gst_world) outcome" where
  "ml_single_close single destroy_status w =
     (case single of
        None \<Rightarrow> Returns (ML_ERROR_INVALID_PARAMETER, w)
      | Some single_h \<Rightarrow>
          if magic single_h \<noteq> ML_SINGLE_MAGIC then Returns (ML_ERROR_INVALID_PARAMETER, w)
          else if lock single_h then Blocks
          else
            (let w1 = gst_object_unref (src single_h) w;
                 w2 = gst_object_unref (sink single_h) w1;
                 w3 = gst_object_unref (filter_elem single_h) w2;
                 w4 = ml_pipeline_destroy_graph w3;
                 w5 = w4\<lparr>live_handles := live_handles w4 - 1\<rparr>
             in Returns (destroy_status, w5)))"

subsection \<open>ml\_single\_open\<close>

text \<open>
  What \<^verbatim>\<open>ml_single_open\<close> asks of its surroundings, none of it among the sources:
  whether GStreamer initialises, whether a path is a regular file, the status and
  verdict of \<^verbatim>\<open>ml_check_nnfw_availability\<close>, the strings
  \<^verbatim>\<open>gst_tensors_info_get_dimensions_string\<close>, \<^verbatim>\<open>gst_tensors_info_get_types_string\<close> and
  \<^verbatim>\<open>gst_tensors_info_get_names_string\<close> print for a descriptor, the status of
  \<^verbatim>\<open>ml_pipeline_construct\<close> for a description together with the pipeline it builds, and
  the statuses of \<^verbatim>\<open>ml_pipeline_start\<close> and \<^verbatim>\<open>ml_pipeline_destroy\<close>.
\<close>

record open_env =
  gst_init_check :: bool
  g_file_test_regular :: "string \<Rightarrow> bool"
  ml_check_nnfw_availability :: "ml_nnfw_type_e \<Rightarrow> ml_nnfw_hw_e \<Rightarrow> ml_error_e \<times> bool"
  dimensions_string :: "ml_tensors_info_s \<Rightarrow> string"
  types_string :: "ml_tensors_info_s \<Rightarrow> string"
  names_string :: "ml_tensors_info_s \<Rightarrow> string"
  ml_pipeline_construct :: "string \<Rightarrow> ml_error_e \<times> ml_pipeline"
  ml_pipeline_start :: ml_error_e
  ml_pipeline_destroy :: ml_error_e

text \<open>
  Lines 279 to 342: the pipeline description of the framework, or the status the
  function returns instead.  The tensorflow description needs both descriptors.
\<close>

definition open_pipeline_desc ::
  "open_env \<Rightarrow> ml_nnfw_type_e \<Rightarrow> string \<Rightarrow> ml_tensors_info_s option \<Rightarrow> ml_tensors_info_s option
   \<Rightarrow> ml_error_e + string" where
  "open_pipeline_desc env nnfw model in_tensors_info out_tensors_info =
     (case nnfw of
        ML_NNFW_TYPE_CUSTOM_FILTER \<Rightarrow>
          Inr (''appsrc name=srcx ! tensor_filter name=filterx framework=custom model='' @ model
               @ '' ! appsink name=sinkx sync=false'')
      | ML_NNFW_TYPE_TENSORFLOW_LITE \<Rightarrow>
          Inr (''appsrc name=srcx ! tensor_filter name=filterx framework=tensorflow-lite model=''
               @ model @ '' ! appsink name=sinkx sync=false'')
      | ML_NNFW_TYPE_TENSORFLOW \<Rightarrow>
          (case (in_tensors_info, out_tensors_info) of
             (Some in_i, Some out_i) \<Rightarrow>
               (let in_option = ''input='' @ dimensions_string env in_i
                      @ '' inputtype='' @ types_string env in_i
                      @ '' inputname='' @ names_string env in_i;
                    out_option = ''output='' @ dimensions_string env out_i
                      @ '' outputtype='' @ types_string env out_i
                      @ '' outputname='' @ names_string env out_i
                in Inr (''appsrc name=srcx ! tensor_filter name=filterx framework=tensorflow model=''
                        @ model @ '' '' @ in_option @ '' '' @ out_option
                        @ '' ! appsink name=sinkx sync=false''))
           | _ \<Rightarrow> Inl ML_ERROR_INVALID_PARAMETER)
      | _ \<Rightarrow> Inl ML_ERROR_NOT_SUPPORTED)"

text \<open>
  Lines 351 to 369: the element references are taken and the struct is allocated and
  filled.  The three names are those of the description the pipeline was built from, so
  each lookup yields its element.
\<close>

definition open_allocate :: "ml_pipeline \<Rightarrow> gst_world \<Rightarrow> ml_single \<times> gst_world" where
  "open_allocate p w =
     (\<lparr>pipe = p, src = Some ''srcx'', sink = Some ''sinkx'', filter_elem = Some ''filterx'',
       in_info = ml_tensors_info_initialize, out_info = ml_tensors_info_initialize,
       magic = ML_SINGLE_MAGIC, lock = False, clear_previous_buffer = False,
       timeout = SINGLE_DEFAULT_TIMEOUT\<rparr>,
      w\<lparr>element_refs := element_refs w + 3, live_handles := live_handles w + 1\<rparr>)"

text \<open>
  Lines 371 to 427: the descriptors and caps of both ends, the appsink's queue policy
  and the start of the pipeline.  The result is the status at the label \<^verbatim>\<open>error\<close>
  and the struct as it is there.
\<close>

definition open_set_input :: "ml_tensors_info_s option \<Rightarrow> ml_single \<Rightarrow> ml_error_e \<times> ml_single" where
  "open_set_input in_tensors_info single_h =
     (case in_tensors_info of
        Some i \<Rightarrow>
          (ML_ERROR_NONE,
           single_h\<lparr>in_info := i, pipe := (pipe single_h)\<lparr>src_caps := Some i\<rparr>\<rparr>)
      | None \<Rightarrow>
          (let h1 = single_h\<lparr>in_info :=
                      ml_single_get_tensors_info_from_filter (pipe single_h) True\<rparr>
           in case ml_tensors_info_validate (in_info h1) of
                (status, valid) \<Rightarrow>
                  if status \<noteq> ML_ERROR_NONE \<or> valid = False
                  then (ML_ERROR_INVALID_PARAMETER, h1)
                  else (ML_ERROR_NONE, h1\<lparr>pipe := (pipe h1)\<lparr>src_caps := Some (in_info h1)\<rparr>\<rparr>)))"

definition open_set_output :: "ml_tensors_info_s option \<Rightarrow> ml_single \<Rightarrow> ml_error_e \<times> ml_single" where
  "open_set_output out_tensors_info single_h =
     (case out_tensors_info of
        Some i \<Rightarrow>
          (ML_ERROR_NONE,
           single_h\<lparr>out_info := i, pipe := (pipe single_h)\<lparr>sink_caps := Some i\<rparr>\<rparr>)
      | None \<Rightarrow>
          (let h1 = single_h\<lparr>out_info :=
                      ml_single_get_tensors_info_from_filter (pipe single_h) False\<rparr>
           in case ml_tensors_info_validate (out_info h1) of
                (status, valid) \<Rightarrow>
                  if status \<noteq> ML_ERROR_NONE \<or> valid = False
                  then (ML_ERROR_INVALID_PARAMETER, h1)
                  else (ML_ERROR_NONE, h1\<lparr>pipe := (pipe h1)\<lparr>sink_caps := Some (out_info h1)\<rparr>\<rparr>)))"

definition open_configure ::
  "open_env \<Rightarrow> ml_tensors_info_s option \<Rightarrow> ml_tensors_info_s option \<Rightarrow> ml_single
   \<Rightarrow> ml_error_e \<times> ml_single" where
  "open_configure env in_tensors_info out_tensors_info single_h =
     (case open_set_input in_tensors_info single_h of
        (st_in, h1) \<Rightarrow>
          if st_in \<noteq> ML_ERROR_NONE then (st_in, h1)
          else
            (case open_set_output out_tensors_info h1 of
               (st_out, h2) \<Rightarrow>
                 if st_out \<noteq> ML_ERROR_NONE then (st_out, h2)
                 else
                   (let h3 = h2\<lparr>pipe := (pipe h2)\<lparr>sink_max_buffers := 1, sink_drop := True\<rparr>\<rparr>;
                        status = ml_pipeline_start env
                    in if status \<noteq> ML_ERROR_NONE then (status, h3)
                       else (status, h3\<lparr>pipe := (pipe h3)\<lparr>playing := True\<rparr>\<rparr>))))"

text \<open>
  Lines 180 to 215: GStreamer must initialise, a descriptor that is given must be
  valid, and the model path must be given and name a regular file.  The result is the
  status the function returns, or the path.
\<close>

definition open_info_invalid :: "ml_tensors_info_s option \<Rightarrow> bool" where
  "open_info_invalid info_h =
     (case info_h of
        None \<Rightarrow> False
      | Some i \<Rightarrow>
          (case ml_tensors_info_validate i of
             (status, valid) \<Rightarrow> status \<noteq> ML_ERROR_NONE \<or> valid = False))"

definition open_check_params ::
  "open_env \<Rightarrow> string option \<Rightarrow> ml_tensors_info_s option \<Rightarrow> ml_tensors_info_s option
   \<Rightarrow> ml_error_e + string" where
  "open_check_params env model input_info output_info =
     (if \<not> gst_init_check env then Inl ML_ERROR_STREAMS_PIPE
      else if open_info_invalid input_info then Inl ML_ERROR_INVALID_PARAMETER
      else if open_info_invalid output_info then Inl ML_ERROR_INVALID_PARAMETER
      else
        (case model of
           None \<Rightarrow> Inl ML_ERROR_INVALID_PARAMETER
         | Some path \<Rightarrow>
             if \<not> g_file_test_regular env path then Inl ML_ERROR_INVALID_PARAMETER
             else Inr path))"

text \<open>
  Lines 217 to 277: the framework is determined and its availability checked.  The
  result is the status the function returns, or the framework.
\<close>

definition open_resolve :: "open_env \<Rightarrow> string \<Rightarrow> ml_nnfw_type_e \<Rightarrow> ml_nnfw_hw_e \<Rightarrow> ml_error_e + ml_nnfw_type_e" where
  "open_resolve env path nnfw hw =
     (case determine_nnfw path nnfw of
        (nnfw1, status) \<Rightarrow>
          if status \<noteq> ML_ERROR_NONE then Inl status
          else
            (case ml_check_nnfw_availability env nnfw1 hw of
               (status2, available) \<Rightarrow>
                 if status2 \<noteq> ML_ERROR_NONE then Inl status2
                 else if \<not> available then Inl ML_ERROR_NOT_SUPPORTED
                 else Inr nnfw1))"

text \<open>
  Lines 344 to 436: the pipeline is constructed from the description; on success the
  struct is allocated and configured, and at the label \<^verbatim>\<open>error\<close> a status other than
  \<^verbatim>\<open>ML_ERROR_NONE\<close> closes the struct, while \<^verbatim>\<open>ML_ERROR_NONE\<close> stores it in the
  caller's slot.
\<close>

definition open_construct ::
  "open_env \<Rightarrow> string \<Rightarrow> ml_tensors_info_s option \<Rightarrow> ml_tensors_info_s option \<Rightarrow> gst_world
   \<Rightarrow> (ml_error_e \<times> ml_single option option \<times> gst_world) outcome" where
  "open_construct env pipeline_desc input_info output_info w =
     (case ml_pipeline_construct env pipeline_desc of
        (status0, p) \<Rightarrow>
          (let w1 = w\<lparr>constructed := constructed w @ [pipeline_desc]\<rparr> in
           if status0 \<noteq> ML_ERROR_NONE then Returns (status0, Some None, w1)
           else
             (case open_allocate p (w1\<lparr>live_pipelines := live_pipelines w1 + 1\<rparr>) of
                (h0, w2) \<Rightarrow>
                  (case open_configure env input_info output_info h0 of
                     (status, single_h) \<Rightarrow>
                       if status \<noteq> ML_ERROR_NONE then
                         (case ml_single_close (Some single_h) (ml_pipeline_destroy env) w2 of
                            Returns (closed, w3) \<Rightarrow> Returns (status, Some None, w3)
                          | Blocks \<Rightarrow> Blocks
                          | Undefined \<Rightarrow> Undefined)
                       else Returns (status, Some (Some single_h), w2)))))"

text \<open>
  The function.  \<open>single\<close> is NULL or points to the caller's handle slot, which is set
  to NULL first; \<open>model\<close> is NULL or a path; the descriptors are NULL or given.  The
  result is the status, the slot and the world as the call leaves them.
\<close>

definition ml_single_open ::
  "ml_single option option \<Rightarrow> string option \<Rightarrow> ml_tensors_info_s option \<Rightarrow> ml_tensors_info_s option
   \<Rightarrow> ml_nnfw_type_e \<Rightarrow> ml_nnfw_hw_e \<Rightarrow> open_env \<Rightarrow> gst_world
   \<Rightarrow> (ml_error_e \<times> ml_single option option \<times> gst_world) outcome" where
  "ml_single_open single model input_info output_info nnfw hw env w =
     (case single of
        None \<Rightarrow> Returns (ML_ERROR_INVALID_PARAMETER, None, w)
      | Some _ \<Rightarrow>
          (case open_check_params env model input_info output_info of
             Inl status \<Rightarrow> Returns (status, Some None, w)
           | Inr path \<Rightarrow>
               (case open_resolve env path nnfw hw of
                  Inl status \<Rightarrow> Returns (status, Some None, w)
                | Inr nnfw1 \<Rightarrow>
                    (case open_pipeline_desc env nnfw1 path input_info output_info of
                       Inl status \<Rightarrow> Returns (status, Some None, w)
                     | Inr pipeline_desc \<Rightarrow>
                         open_construct env pipeline_desc input_info output_info w))))"

subsection \<open>Concrete instances\<close>

text \<open>
  A pipeline around a pass-through model of four bytes, as a custom filter would load
  it: the model returns its input frame, and the filter element reports one
  \<^verbatim>\<open>uint8\<close> tensor of dimension 4:1:1:1 at both ends.
\<close>

definition ex_info4 :: ml_tensors_info_s where
  "ex_info4 =
     \<lparr>num_tensors = 1,
      info = \<lparr>name = None, type = ML_TENSOR_TYPE_UINT8, dimension = [4, 1, 1, 1]\<rparr>
             # replicate 15 ml_tensor_info_initial\<rparr>"

definition ex_props4 :: tensor_filter_props where
  "ex_props4 =
     \<lparr>prop_dimensions = [[4, 1, 1, 1]], prop_types = [ML_TENSOR_TYPE_UINT8], prop_names = [None]\<rparr>"

definition ex_pipeline :: ml_pipeline where
  "ex_pipeline =
     \<lparr>in_flight = [], sink_queue = [], sink_eos = False, sink_max_buffers = 0,
      sink_drop = False, src_caps = None, sink_caps = None, playing = False,
      filter_invoke = (\<lambda>b. b),
      filter_input_props = ex_props4, filter_output_props = ex_props4\<rparr>"

definition ex_env :: open_env where
  "ex_env =
     \<lparr>gst_init_check = True,
      g_file_test_regular = (\<lambda>path. True),
      ml_check_nnfw_availability = (\<lambda>nnfw hw. (ML_ERROR_NONE, True)),
      dimensions_string = (\<lambda>i. ''4:1:1:1''),
      types_string = (\<lambda>i. ''uint8''),
      names_string = (\<lambda>i. []),
      ml_pipeline_construct = (\<lambda>desc. (ML_ERROR_NONE, ex_pipeline)),
      ml_pipeline_start = ML_ERROR_NONE,
      ml_pipeline_destroy = ML_ERROR_NONE\<rparr>"

definition ex_world :: gst_world where
  "ex_world = \<lparr>constructed = [], live_pipelines = 0, element_refs = 0, live_handles = 0\<rparr>"

subsection \<open>Predicates of the statements\<close>

text \<open>
  A handle is live when its magic is intact, and idle when no call holds its mutex.
\<close>

definition single_live :: "ml_single \<Rightarrow> bool" where
  "single_live h = (magic h = ML_SINGLE_MAGIC \<and> \<not> lock h)"

text \<open>
  The state of the pipeline between two calls: when the flag is set, at most one frame
  (the one the timed-out call left behind) is in flight or queued; when it is clear, the
  pipeline holds no frame.
\<close>

definition single_inv :: "ml_single \<Rightarrow> bool" where
  "single_inv h =
     (if clear_previous_buffer h
      then length (in_flight (pipe h)) + length (sink_queue (pipe h)) \<le> 1
      else in_flight (pipe h) = [] \<and> sink_queue (pipe h) = [])"


text \<open>The handle with its pipeline emptied and the flag cleared, as the cleanup leaves it.\<close>

definition drained :: "ml_single \<Rightarrow> ml_single" where
  "drained h = h\<lparr>pipe := (pipe h)\<lparr>in_flight := [], sink_queue := []\<rparr>, clear_previous_buffer := False\<rparr>"

text \<open>The bound of the wait of a call on the handle, in nanoseconds.\<close>

definition wait_ns :: "ml_single \<Rightarrow> nat" where
  "wait_ns h = unat (GST_MSECOND * ucast (timeout h))"


text \<open>The freshly allocated buffer that \<^verbatim>\<open>ml_single_invoke\<close> fills for a handle.\<close>

definition fresh_output :: "ml_single \<Rightarrow> ml_tensors_data_s" where
  "fresh_output h = the (snd (ml_tensors_data_create (out_info h)))"

text \<open>
  The handle \<^verbatim>\<open>ml_single_open\<close> returns for the pass-through model, two inputs of four
  bytes, an inference that takes five seconds and one that takes twenty milliseconds.
\<close>

definition ex_single :: ml_single where
  "ex_single =
     \<lparr>pipe = ex_pipeline\<lparr>sink_max_buffers := 1, sink_drop := True, src_caps := Some ex_info4,
                          sink_caps := Some ex_info4, playing := True\<rparr>,
      src = Some ''srcx'', sink = Some ''sinkx'', filter_elem = Some ''filterx'',
      in_info = ex_info4, out_info = ex_info4,
      magic = ML_SINGLE_MAGIC, lock = False, clear_previous_buffer = False,
      timeout = SINGLE_DEFAULT_TIMEOUT\<rparr>"

definition ex_data :: "byte list \<Rightarrow> ml_tensors_data_s" where
  "ex_data bytes =
     \<lparr>num_tensors_d = 1,
      tensors = \<lparr>tensor = Some bytes, size_d = length bytes\<rparr>
                # replicate 15 \<lparr>tensor = None, size_d = 0\<rparr>\<rparr>"

definition ex_slow :: invoke_env where
  "ex_slow = \<lparr>push_ret = GST_FLOW_OK, latency = 5000000000\<rparr>"

definition ex_fast :: invoke_env where
  "ex_fast = \<lparr>push_ret = GST_FLOW_OK, latency = 20000000\<rparr>"

text \<open>
  The handle after a call with input 1, 2, 3, 4 has timed out on the slow inference: the
  flag is set and the frame still needs two seconds.
\<close>

definition ex_stale :: ml_single where
  "ex_stale =
     ex_single\<lparr>pipe := (pipe ex_single)\<lparr>in_flight := [(2000000000, [[1, 2, 3, 4]])]\<rparr>,
               clear_previous_buffer := True\<rparr>"

text \<open>A flagged handle whose pipeline holds no frame and has not seen end-of-stream.\<close>

definition ex_lost :: ml_single where
  "ex_lost = ex_single\<lparr>clear_previous_buffer := True\<rparr>"

text \<open>
  The descriptors of the scenarios of the spec: one \<^verbatim>\<open>uint8\<close> tensor of dimension
  1:28:28:1 and one \<^verbatim>\<open>float32\<close> tensor of dimension 1:10 (the unused dimensions are 1).
\<close>

definition ex_info_mnist_in :: ml_tensors_info_s where
  "ex_info_mnist_in =
     \<lparr>num_tensors = 1,
      info = \<lparr>name = None, type = ML_TENSOR_TYPE_UINT8, dimension = [1, 28, 28, 1]\<rparr>
             # replicate 15 ml_tensor_info_initial\<rparr>"

definition ex_info_mnist_out :: ml_tensors_info_s where
  "ex_info_mnist_out =
     \<lparr>num_tensors = 1,
      info = \<lparr>name = None, type = ML_TENSOR_TYPE_FLOAT32, dimension = [1, 10, 1, 1]\<rparr>
             # replicate 15 ml_tensor_info_initial\<rparr>"

definition ex_single_mnist :: ml_single where
  "ex_single_mnist = ex_single\<lparr>in_info := ex_info_mnist_in, out_info := ex_info_mnist_out\<rparr>"

text \<open>An input whose single block is one byte short of 28 * 28 * 1.\<close>

definition ex_data_short :: ml_tensors_data_s where
  "ex_data_short = ex_data (replicate (28 * 28 * 1 - 1) 0)"

text \<open>The surroundings of the pass-through model when the pipeline fails to start.\<close>

definition ex_env_start_fails :: open_env where
  "ex_env_start_fails = ex_env\<lparr>ml_pipeline_start := ML_ERROR_STREAMS_PIPE\<rparr>"

text \<open>
  A tensorflow-lite image classifier: the filter element reports one \<^verbatim>\<open>uint8\<close> input of
  dimension 3:224:224:1 and one \<^verbatim>\<open>uint8\<close> output of dimension 1001:1:1:1.
\<close>

definition ex_pipeline_classifier :: ml_pipeline where
  "ex_pipeline_classifier =
     ex_pipeline
       \<lparr>filter_invoke := (\<lambda>b. [replicate 1001 0]),
        filter_input_props :=
          \<lparr>prop_dimensions = [[3, 224, 224, 1]], prop_types = [ML_TENSOR_TYPE_UINT8],
           prop_names = [None]\<rparr>,
        filter_output_props :=
          \<lparr>prop_dimensions = [[1001, 1, 1, 1]], prop_types = [ML_TENSOR_TYPE_UINT8],
           prop_names = [None]\<rparr>\<rparr>"

definition ex_env_classifier :: open_env where
  "ex_env_classifier = ex_env\<lparr>ml_pipeline_construct := (\<lambda>desc. (ML_ERROR_NONE, ex_pipeline_classifier))\<rparr>"

text \<open>
  The descriptor the classifier's filter element reports for its input, and the handle
  \<^verbatim>\<open>ml_single_open\<close> returns for the classifier when it is given the two descriptors of
  the spec's scenario.
\<close>

definition ex_info_classifier_in :: ml_tensors_info_s where
  "ex_info_classifier_in =
     \<lparr>num_tensors = 1,
      info = \<lparr>name = None, type = ML_TENSOR_TYPE_UINT8, dimension = [3, 224, 224, 1]\<rparr>
             # replicate 15 ml_tensor_info_initial\<rparr>"

definition ex_single_classifier :: ml_single where
  "ex_single_classifier =
     \<lparr>pipe = ex_pipeline_classifier
               \<lparr>sink_max_buffers := 1, sink_drop := True, src_caps := Some ex_info_mnist_in,
                sink_caps := Some ex_info_mnist_out, playing := True\<rparr>,
      src = Some ''srcx'', sink = Some ''sinkx'', filter_elem = Some ''filterx'',
      in_info = ex_info_mnist_in, out_info = ex_info_mnist_out,
      magic = ML_SINGLE_MAGIC, lock = False, clear_previous_buffer = False,
      timeout = SINGLE_DEFAULT_TIMEOUT\<rparr>"

text \<open>
  A quantised digit classifier: the filter element reports one \<^verbatim>\<open>uint8\<close> input of
  dimension 1:28:28:1 and one \<^verbatim>\<open>uint8\<close> output of dimension 10:1:1:1, and every output
  frame is ten bytes of value 7.  \<open>ex_single_quant\<close> is the handle \<^verbatim>\<open>ml_single_open\<close>
  returns for it when it is given the two descriptors of the spec's scenario, whose
  output is ten \<^verbatim>\<open>float32\<close> values.
\<close>

definition ex_pipeline_quant :: ml_pipeline where
  "ex_pipeline_quant =
     ex_pipeline
       \<lparr>filter_invoke := (\<lambda>b. [replicate 10 7]),
        filter_input_props :=
          \<lparr>prop_dimensions = [[1, 28, 28, 1]], prop_types = [ML_TENSOR_TYPE_UINT8],
           prop_names = [None]\<rparr>,
        filter_output_props :=
          \<lparr>prop_dimensions = [[10, 1, 1, 1]], prop_types = [ML_TENSOR_TYPE_UINT8],
           prop_names = [None]\<rparr>\<rparr>"

definition ex_env_quant :: open_env where
  "ex_env_quant = ex_env\<lparr>ml_pipeline_construct := (\<lambda>desc. (ML_ERROR_NONE, ex_pipeline_quant))\<rparr>"

definition ex_single_quant :: ml_single where
  "ex_single_quant =
     \<lparr>pipe = ex_pipeline_quant
               \<lparr>sink_max_buffers := 1, sink_drop := True, src_caps := Some ex_info_mnist_in,
                sink_caps := Some ex_info_mnist_out, playing := True\<rparr>,
      src = Some ''srcx'', sink = Some ''sinkx'', filter_elem = Some ''filterx'',
      in_info = ex_info_mnist_in, out_info = ex_info_mnist_out,
      magic = ML_SINGLE_MAGIC, lock = False, clear_previous_buffer = False,
      timeout = SINGLE_DEFAULT_TIMEOUT\<rparr>"

text \<open>An inference that takes half a millisecond.\<close>

definition ex_quick :: invoke_env where
  "ex_quick = \<lparr>push_ret = GST_FLOW_OK, latency = 500000\<rparr>"

section \<open>Properties\<close>

subsection \<open>Framework resolution\<close>

lemma g_ascii_tolower_idem: "g_ascii_tolower (g_ascii_tolower c) = g_ascii_tolower c"
  by (simp add: g_ascii_tolower_def)

lemma g_ascii_strdown_idem: "g_ascii_strdown (g_ascii_strdown s) = g_ascii_strdown s"
  by (simp add: g_ascii_strdown_def g_ascii_tolower_idem)

lemma g_str_has_suffix_last:
  assumes "g_str_has_suffix s sfx" and "sfx \<noteq> []"
  shows "last s = last sfx"
proof -
  from assms have len: "length sfx \<le> length s" and eq: "drop (length s - length sfx) s = sfx"
    by (auto simp: g_str_has_suffix_def Let_def split: if_splits)
  from assms(2) len have "length s - length sfx < length s"
    by (cases sfx) auto
  then have "last (drop (length s - length sfx) s) = last s"
    by (rule last_drop)
  with eq show ?thesis by simp
qed

lemma suffix_pb_not_tflite:
  "g_str_has_suffix s ''.pb'' \<Longrightarrow> \<not> g_str_has_suffix s ''.tflite''"
  using g_str_has_suffix_last [of s "''.pb''"] g_str_has_suffix_last [of s "''.tflite''"]
  by auto

lemma suffix_so_not_tflite:
  "g_str_has_suffix s ''.so'' \<Longrightarrow> \<not> g_str_has_suffix s ''.tflite''"
  using g_str_has_suffix_last [of s "''.so''"] g_str_has_suffix_last [of s "''.tflite''"]
  by auto

lemma suffix_so_not_pb:
  "g_str_has_suffix s ''.so'' \<Longrightarrow> \<not> g_str_has_suffix s ''.pb''"
  using g_str_has_suffix_last [of s "''.so''"] g_str_has_suffix_last [of s "''.pb''"]
  by auto

lemma open_resolve_error:
  "snd (determine_nnfw p nnfw) \<noteq> ML_ERROR_NONE \<Longrightarrow>
   open_resolve env p nnfw hw = Inl (snd (determine_nnfw p nnfw))"
  by (cases "determine_nnfw p nnfw") (simp add: open_resolve_def)

text \<open>
  C8.  The framework is a function of the hint and of the extension of the lower-cased
  path.  Without a hint, \<^verbatim>\<open>.tflite\<close> gives tensorflow-lite, \<^verbatim>\<open>.pb\<close> gives tensorflow, the
  shared-library extension gives the custom filter, and any other extension gives
  invalid-parameter.  With the hint tensorflow-lite, tensorflow or custom filter, a path
  without the hint's extension gives invalid-parameter; the hint NNFW, for which the
  source knows no extension, is not supported whatever the path.  \<^verbatim>\<open>ml_single_open\<close>
  returns the error of the resolution, with the caller's slot NULL and nothing built,
  once the parameter checks before it have passed.
\<close>

theorem framework_resolution:
  "(g_str_has_suffix (g_ascii_strdown p) ''.tflite'' \<longrightarrow>
      determine_nnfw p ML_NNFW_TYPE_ANY = (ML_NNFW_TYPE_TENSORFLOW_LITE, ML_ERROR_NONE)) \<and>
   (g_str_has_suffix (g_ascii_strdown p) ''.pb'' \<longrightarrow>
      determine_nnfw p ML_NNFW_TYPE_ANY = (ML_NNFW_TYPE_TENSORFLOW, ML_ERROR_NONE)) \<and>
   (g_str_has_suffix (g_ascii_strdown p) NNSTREAMER_SO_FILE_EXTENSION \<longrightarrow>
      determine_nnfw p ML_NNFW_TYPE_ANY = (ML_NNFW_TYPE_CUSTOM_FILTER, ML_ERROR_NONE)) \<and>
   (\<not> g_str_has_suffix (g_ascii_strdown p) ''.tflite'' \<and>
    \<not> g_str_has_suffix (g_ascii_strdown p) ''.pb'' \<and>
    \<not> g_str_has_suffix (g_ascii_strdown p) NNSTREAMER_SO_FILE_EXTENSION \<longrightarrow>
      snd (determine_nnfw p ML_NNFW_TYPE_ANY) = ML_ERROR_INVALID_PARAMETER) \<and>
   (\<not> g_str_has_suffix (g_ascii_strdown p) ''.tflite'' \<longrightarrow>
      snd (determine_nnfw p ML_NNFW_TYPE_TENSORFLOW_LITE) = ML_ERROR_INVALID_PARAMETER) \<and>
   (\<not> g_str_has_suffix (g_ascii_strdown p) ''.pb'' \<longrightarrow>
      snd (determine_nnfw p ML_NNFW_TYPE_TENSORFLOW) = ML_ERROR_INVALID_PARAMETER) \<and>
   (\<not> g_str_has_suffix (g_ascii_strdown p) NNSTREAMER_SO_FILE_EXTENSION \<longrightarrow>
      snd (determine_nnfw p ML_NNFW_TYPE_CUSTOM_FILTER) = ML_ERROR_INVALID_PARAMETER) \<and>
   snd (determine_nnfw p ML_NNFW_TYPE_NNFW) = ML_ERROR_NOT_SUPPORTED \<and>
   (open_check_params env model input_info output_info = Inr p \<and>
    snd (determine_nnfw p nnfw) \<noteq> ML_ERROR_NONE \<longrightarrow>
      ml_single_open (Some slot) model input_info output_info nnfw hw env w =
        Returns (snd (determine_nnfw p nnfw), Some None, w))"
proof -
  have any: "determine_nnfw p ML_NNFW_TYPE_ANY =
      (if g_str_has_suffix (g_ascii_strdown p) ''.tflite''
         then (ML_NNFW_TYPE_TENSORFLOW_LITE, ML_ERROR_NONE)
       else if g_str_has_suffix (g_ascii_strdown p) ''.pb''
         then (ML_NNFW_TYPE_TENSORFLOW, ML_ERROR_NONE)
       else if g_str_has_suffix (g_ascii_strdown p) ''.so''
         then (ML_NNFW_TYPE_CUSTOM_FILTER, ML_ERROR_NONE)
       else (ML_NNFW_TYPE_ANY, ML_ERROR_INVALID_PARAMETER))"
    by (simp add: determine_nnfw_def NNSTREAMER_SO_FILE_EXTENSION_def)
  have c1: "g_str_has_suffix (g_ascii_strdown p) ''.tflite'' \<longrightarrow>
      determine_nnfw p ML_NNFW_TYPE_ANY = (ML_NNFW_TYPE_TENSORFLOW_LITE, ML_ERROR_NONE)"
    by (simp add: any)
  have c2: "g_str_has_suffix (g_ascii_strdown p) ''.pb'' \<longrightarrow>
      determine_nnfw p ML_NNFW_TYPE_ANY = (ML_NNFW_TYPE_TENSORFLOW, ML_ERROR_NONE)"
    using suffix_pb_not_tflite [of "g_ascii_strdown p"] by (simp add: any)
  have c3: "g_str_has_suffix (g_ascii_strdown p) NNSTREAMER_SO_FILE_EXTENSION \<longrightarrow>
      determine_nnfw p ML_NNFW_TYPE_ANY = (ML_NNFW_TYPE_CUSTOM_FILTER, ML_ERROR_NONE)"
    using suffix_so_not_tflite [of "g_ascii_strdown p"] suffix_so_not_pb [of "g_ascii_strdown p"]
    by (simp add: any NNSTREAMER_SO_FILE_EXTENSION_def)
  have c4: "\<not> g_str_has_suffix (g_ascii_strdown p) ''.tflite'' \<and>
      \<not> g_str_has_suffix (g_ascii_strdown p) ''.pb'' \<and>
      \<not> g_str_has_suffix (g_ascii_strdown p) NNSTREAMER_SO_FILE_EXTENSION \<longrightarrow>
      snd (determine_nnfw p ML_NNFW_TYPE_ANY) = ML_ERROR_INVALID_PARAMETER"
    by (simp add: any NNSTREAMER_SO_FILE_EXTENSION_def)
  have c5: "\<not> g_str_has_suffix (g_ascii_strdown p) ''.tflite'' \<longrightarrow>
      snd (determine_nnfw p ML_NNFW_TYPE_TENSORFLOW_LITE) = ML_ERROR_INVALID_PARAMETER"
    by (simp add: determine_nnfw_def)
  have c6: "\<not> g_str_has_suffix (g_ascii_strdown p) ''.pb'' \<longrightarrow>
      snd (determine_nnfw p ML_NNFW_TYPE_TENSORFLOW) = ML_ERROR_INVALID_PARAMETER"
    by (simp add: determine_nnfw_def)
  have c7: "\<not> g_str_has_suffix (g_ascii_strdown p) NNSTREAMER_SO_FILE_EXTENSION \<longrightarrow>
      snd (determine_nnfw p ML_NNFW_TYPE_CUSTOM_FILTER) = ML_ERROR_INVALID_PARAMETER"
    by (simp add: determine_nnfw_def)
  have c8: "open_check_params env model input_info output_info = Inr p \<and>
      snd (determine_nnfw p nnfw) \<noteq> ML_ERROR_NONE \<longrightarrow>
      ml_single_open (Some slot) model input_info output_info nnfw hw env w =
        Returns (snd (determine_nnfw p nnfw), Some None, w)"
    by (simp add: ml_single_open_def open_resolve_error)
  have c9: "snd (determine_nnfw p ML_NNFW_TYPE_NNFW) = ML_ERROR_NOT_SUPPORTED"
    by (simp add: determine_nnfw_def)
  from c1 c2 c3 c4 c5 c6 c7 c8 c9 show ?thesis by blast
qed

lemma ex_suffix_tflite: "g_str_has_suffix (g_ascii_strdown ''mnist.tflite'') ''.tflite''"
  by (simp add: g_ascii_strdown_def g_ascii_tolower_def g_str_has_suffix_def)

lemma ex_suffix_pb: "g_str_has_suffix (g_ascii_strdown ''graph.pb'') ''.pb''"
  by (simp add: g_ascii_strdown_def g_ascii_tolower_def g_str_has_suffix_def)

lemma ex_suffix_so: "g_str_has_suffix (g_ascii_strdown ''libpass.so'') NNSTREAMER_SO_FILE_EXTENSION"
  by (simp add: g_ascii_strdown_def g_ascii_tolower_def g_str_has_suffix_def
                NNSTREAMER_SO_FILE_EXTENSION_def)

lemma ex_suffix_onnx:
  "\<not> g_str_has_suffix (g_ascii_strdown ''net.onnx'') ''.tflite'' \<and>
   \<not> g_str_has_suffix (g_ascii_strdown ''net.onnx'') ''.pb'' \<and>
   \<not> g_str_has_suffix (g_ascii_strdown ''net.onnx'') NNSTREAMER_SO_FILE_EXTENSION"
  by (simp add: g_ascii_strdown_def g_ascii_tolower_def g_str_has_suffix_def
                NNSTREAMER_SO_FILE_EXTENSION_def)

lemma ex_check_params_onnx: "open_check_params ex_env (Some ''net.onnx'') None None = Inr ''net.onnx''"
  by (simp add: open_check_params_def open_info_invalid_def ex_env_def)

theorem framework_resolution_witness:
  "determine_nnfw ''mnist.tflite'' ML_NNFW_TYPE_ANY = (ML_NNFW_TYPE_TENSORFLOW_LITE, ML_ERROR_NONE) \<and>
   determine_nnfw ''graph.pb'' ML_NNFW_TYPE_ANY = (ML_NNFW_TYPE_TENSORFLOW, ML_ERROR_NONE) \<and>
   determine_nnfw ''libpass.so'' ML_NNFW_TYPE_ANY = (ML_NNFW_TYPE_CUSTOM_FILTER, ML_ERROR_NONE) \<and>
   snd (determine_nnfw ''net.onnx'' ML_NNFW_TYPE_ANY) = ML_ERROR_INVALID_PARAMETER \<and>
   snd (determine_nnfw ''net.onnx'' ML_NNFW_TYPE_TENSORFLOW_LITE) = ML_ERROR_INVALID_PARAMETER \<and>
   snd (determine_nnfw ''net.onnx'' ML_NNFW_TYPE_TENSORFLOW) = ML_ERROR_INVALID_PARAMETER \<and>
   snd (determine_nnfw ''net.onnx'' ML_NNFW_TYPE_CUSTOM_FILTER) = ML_ERROR_INVALID_PARAMETER \<and>
   ml_single_open (Some None) (Some ''net.onnx'') None None ML_NNFW_TYPE_ANY 0 ex_env ex_world =
     Returns (ML_ERROR_INVALID_PARAMETER, Some None, ex_world)"
proof -
  note thm_onnx = framework_resolution [of "''net.onnx''" ex_env "Some ''net.onnx''" None None
      ML_NNFW_TYPE_ANY None 0 ex_world]
  have a1: "determine_nnfw ''mnist.tflite'' ML_NNFW_TYPE_ANY =
      (ML_NNFW_TYPE_TENSORFLOW_LITE, ML_ERROR_NONE)"
    using framework_resolution [of "''mnist.tflite''"] ex_suffix_tflite by blast
  have a2: "determine_nnfw ''graph.pb'' ML_NNFW_TYPE_ANY = (ML_NNFW_TYPE_TENSORFLOW, ML_ERROR_NONE)"
    using framework_resolution [of "''graph.pb''"] ex_suffix_pb by blast
  have a3: "determine_nnfw ''libpass.so'' ML_NNFW_TYPE_ANY =
      (ML_NNFW_TYPE_CUSTOM_FILTER, ML_ERROR_NONE)"
    using framework_resolution [of "''libpass.so''"] ex_suffix_so by blast
  have a4: "snd (determine_nnfw ''net.onnx'' ML_NNFW_TYPE_ANY) = ML_ERROR_INVALID_PARAMETER"
    using thm_onnx ex_suffix_onnx by blast
  have a5: "snd (determine_nnfw ''net.onnx'' ML_NNFW_TYPE_TENSORFLOW_LITE) = ML_ERROR_INVALID_PARAMETER"
    using thm_onnx ex_suffix_onnx by blast
  have a6: "snd (determine_nnfw ''net.onnx'' ML_NNFW_TYPE_TENSORFLOW) = ML_ERROR_INVALID_PARAMETER"
    using thm_onnx ex_suffix_onnx by blast
  have a7: "snd (determine_nnfw ''net.onnx'' ML_NNFW_TYPE_CUSTOM_FILTER) = ML_ERROR_INVALID_PARAMETER"
    using thm_onnx ex_suffix_onnx by blast
  have ne: "snd (determine_nnfw ''net.onnx'' ML_NNFW_TYPE_ANY) \<noteq> ML_ERROR_NONE"
    by (simp add: a4)
  have a8: "ml_single_open (Some None) (Some ''net.onnx'') None None ML_NNFW_TYPE_ANY 0 ex_env ex_world =
      Returns (snd (determine_nnfw ''net.onnx'' ML_NNFW_TYPE_ANY), Some None, ex_world)"
    using thm_onnx ex_check_params_onnx ne by blast
  from a1 a2 a3 a4 a5 a6 a7 a8 show ?thesis by simp
qed

text \<open>
  C10.  The extension matching is case-insensitive: the resolution of a path is the
  resolution of its lower-cased form, so two paths that differ only in the case of
  ASCII letters resolve alike, for every hint.
\<close>

theorem extension_case_insensitive:
  "determine_nnfw p nnfw = determine_nnfw (g_ascii_strdown p) nnfw \<and>
   (g_ascii_strdown p = g_ascii_strdown q \<longrightarrow> determine_nnfw p nnfw = determine_nnfw q nnfw)"
  by (simp add: determine_nnfw_def g_ascii_strdown_idem)

lemma ex_strdown_upper: "g_ascii_strdown ''MNIST.Tflite'' = g_ascii_strdown ''mnist.tflite''"
  by (simp add: g_ascii_strdown_def g_ascii_tolower_def)

theorem extension_case_insensitive_witness:
  "g_ascii_strdown ''MNIST.Tflite'' = g_ascii_strdown ''mnist.tflite'' \<and>
   determine_nnfw ''MNIST.Tflite'' ML_NNFW_TYPE_ANY = determine_nnfw ''mnist.tflite'' ML_NNFW_TYPE_ANY"
  using extension_case_insensitive [of "''MNIST.Tflite''" ML_NNFW_TYPE_ANY "''mnist.tflite''"]
        ex_strdown_upper
  by blast

subsection \<open>ml\_single\_invoke\<close>

lemma wait_ns_eq: "wait_ns h = 1000000 * unat (timeout h)"
proof -
  have lt: "unat (timeout h) < 2 ^ 32" using unsigned_less [of "timeout h"] by simp
  have u: "unat (ucast (timeout h) :: 64 word) = unat (timeout h)"
    using lt by (simp add: unsigned_ucast_eq take_bit_nat_eq_self)
  have g: "unat GST_MSECOND = 1000000" by (simp add: GST_MSECOND_def)
  from lt have "unat GST_MSECOND * unat (ucast (timeout h) :: 64 word) < 2 ^ LENGTH(64)"
    by (simp add: u g)
  then have "unat (GST_MSECOND * ucast (timeout h)) = unat GST_MSECOND * unat (ucast (timeout h) :: 64 word)"
    by (rule unat_mult_lem [THEN iffD1])
  then show ?thesis by (simp add: wait_ns_def u g)
qed

lemma pull_sample_inv:
  assumes "single_inv h" and "clear_previous_buffer h"
      and "gst_app_sink_pull_sample (pipe h) = Some (s, p1)"
  shows "p1 = (pipe h)\<lparr>in_flight := [], sink_queue := []\<rparr>"
proof -
  from assms(1,2) have le: "length (in_flight (pipe h)) + length (sink_queue (pipe h)) \<le> 1"
    by (simp add: single_inv_def)
  show ?thesis
  proof (cases "sink_queue (pipe h)")
    case (Cons b q)
    with le have "q = []" "in_flight (pipe h) = []" by simp_all
    with Cons assms(3) show ?thesis
      by (auto simp: gst_app_sink_pull_sample_def)
  next
    case Nil
    show ?thesis
    proof (cases "in_flight (pipe h)")
      case (Cons f fs)
      with le have "fs = []" by simp
      with Cons Nil assms(3) show ?thesis
        by (cases f) (auto simp: gst_app_sink_pull_sample_def)
    next
      case empty: Nil
      with Nil assms(3) have "p1 = pipe h"
        by (auto simp: gst_app_sink_pull_sample_def split: if_splits)
      with Nil empty show ?thesis by simp
    qed
  qed
qed

lemma invoke_clear_previous_inv:
  assumes "single_inv h"
  shows "invoke_clear_previous h =
           (if clear_previous_buffer h \<and> gst_app_sink_pull_sample (pipe h) = None then None
            else Some (drained h))"
proof (cases "clear_previous_buffer h")
  case True
  show ?thesis
  proof (cases "gst_app_sink_pull_sample (pipe h)")
    case None
    with True show ?thesis
      by (simp add: invoke_clear_previous_def ML_SINGLE_SUPPORT_TIMEOUT_def)
  next
    case (Some sp)
    obtain s p1 where sp: "sp = (s, p1)" by (cases sp)
    from pull_sample_inv [OF assms True Some [unfolded sp]]
    have "p1 = (pipe h)\<lparr>in_flight := [], sink_queue := []\<rparr>" .
    with True Some sp show ?thesis
      by (simp add: invoke_clear_previous_def drained_def ML_SINGLE_SUPPORT_TIMEOUT_def)
  qed
next
  case False
  with assms have "in_flight (pipe h) = []" "sink_queue (pipe h) = []"
    by (simp_all add: single_inv_def)
  with False have "drained h = h" by (simp add: drained_def)
  with False show ?thesis by (simp add: invoke_clear_previous_def)
qed

lemma invoke_normal_form:
  assumes "single_live h" "single_inv h" "invoke_validate_input h d = ML_ERROR_NONE"
  shows "ml_single_invoke (Some h) (Some d) (Some slot) env =
    (if clear_previous_buffer h \<and> gst_app_sink_pull_sample (pipe h) = None then Blocks
     else if push_ret env \<noteq> GST_FLOW_OK then Undefined
     else if latency env \<le> wait_ns h then
       (case invoke_copy_result (the (snd (ml_tensors_data_create (out_info h))))
               (filter_invoke (pipe h) (invoke_wrap_input d)) of
          None \<Rightarrow> Undefined
        | Some r \<Rightarrow> Returns (ML_ERROR_NONE, Some (Some r), Some (drained h)))
     else Returns (ML_ERROR_TIMED_OUT, Some None,
            Some ((drained h)\<lparr>pipe := (pipe (drained h))\<lparr>in_flight :=
                     [(latency env - wait_ns h, filter_invoke (pipe h) (invoke_wrap_input d))]\<rparr>,
                   clear_previous_buffer := True\<rparr>)))"
  using assms
  by (simp add: ml_single_invoke_def single_live_def invoke_clear_previous_inv
      gst_app_src_push_buffer_def invoke_pull_result_def ML_SINGLE_SUPPORT_TIMEOUT_def
      gst_app_sink_try_pull_sample_def drained_def wait_ns_def ml_tensors_data_create_def
      split: option.splits)

lemma invoke_invalid_input:
  assumes "single_live h" "invoke_validate_input h d \<noteq> ML_ERROR_NONE"
  shows "ml_single_invoke (Some h) (Some d) (Some slot) env =
           Returns (ML_ERROR_INVALID_PARAMETER, Some None, Some h)"
proof -
  from assms(2) have "invoke_validate_input h d = ML_ERROR_INVALID_PARAMETER"
    by (simp add: invoke_validate_input_def split: if_splits)
  with assms(1) show ?thesis
    by (simp add: ml_single_invoke_def single_live_def)
qed

lemma invoke_validate_input_iff:
  "invoke_validate_input h d \<noteq> ML_ERROR_NONE \<longleftrightarrow>
     (num_tensors_d d \<noteq> num_tensors (in_info h) \<or>
      (\<exists>i<num_tensors_d d. tensor (tensors d ! i) = None \<or>
          size_d (tensors d ! i) \<noteq> ml_tensor_info_get_size (info (in_info h) ! i)))"
  by (auto simp: invoke_validate_input_def list_ex_iff Let_def)

text \<open>
  C4.  On a live handle, an input whose tensor count differs from the input
  descriptor's, or one of whose blocks is NULL or differs in byte length from the
  computed size of its entry, makes \<^verbatim>\<open>ml_single_invoke\<close> return invalid-parameter; the
  struct behind the handle, pipeline included, is as before, so no frame was submitted
  and no state changed.  The caller's output slot is set to NULL.
\<close>

theorem invalid_input_rejected:
  assumes "single_live h"
      and "num_tensors_d d \<noteq> num_tensors (in_info h) \<or>
           (\<exists>i<num_tensors_d d. tensor (tensors d ! i) = None \<or>
              size_d (tensors d ! i) \<noteq> ml_tensor_info_get_size (info (in_info h) ! i))"
  shows "ml_single_invoke (Some h) (Some d) (Some slot) env =
           Returns (ML_ERROR_INVALID_PARAMETER, Some None, Some h)"
  using assms invoke_invalid_input [of h d slot env] invoke_validate_input_iff [of h d]
  by blast

lemma ex_single_mnist_live: "single_live ex_single_mnist"
  by (simp add: single_live_def ex_single_mnist_def ex_single_def)

lemma ex_data_short_size:
  "0 < num_tensors_d ex_data_short \<and>
   size_d (tensors ex_data_short ! 0) = 783 \<and>
   ml_tensor_info_get_size (info (in_info ex_single_mnist) ! 0) = 784"
  by (simp add: ex_data_short_def ex_data_def ex_single_mnist_def ex_info_mnist_in_def
      ml_tensor_info_get_size_def)

theorem invalid_input_rejected_witness:
  "single_live ex_single_mnist \<and>
   size_d (tensors ex_data_short ! 0) = 783 \<and>
   ml_tensor_info_get_size (info (in_info ex_single_mnist) ! 0) = 784 \<and>
   ml_single_invoke (Some ex_single_mnist) (Some ex_data_short) (Some None) ex_fast =
     Returns (ML_ERROR_INVALID_PARAMETER, Some None, Some ex_single_mnist)"
proof -
  have "\<exists>i<num_tensors_d ex_data_short. tensor (tensors ex_data_short ! i) = None \<or>
          size_d (tensors ex_data_short ! i) \<noteq>
            ml_tensor_info_get_size (info (in_info ex_single_mnist) ! i)"
    using ex_data_short_size by (intro exI [of _ 0]) simp
  then have "ml_single_invoke (Some ex_single_mnist) (Some ex_data_short) (Some None) ex_fast =
     Returns (ML_ERROR_INVALID_PARAMETER, Some None, Some ex_single_mnist)"
    using invalid_input_rejected [OF ex_single_mnist_live] by blast
  with ex_single_mnist_live ex_data_short_size show ?thesis by simp
qed










lemma invoke_validate_input_cases:
  "invoke_validate_input h d = ML_ERROR_NONE \<or> invoke_validate_input h d = ML_ERROR_INVALID_PARAMETER"
  by (simp add: invoke_validate_input_def)

lemma invoke_validate_input_status [simp]:
  "invoke_validate_input h d \<noteq> ML_ERROR_TIMED_OUT"
  "invoke_validate_input h d \<noteq> ML_ERROR_STREAMS_PIPE"
  "invoke_validate_input h d \<noteq> ML_ERROR_UNKNOWN"
  "invoke_validate_input h d \<noteq> ML_ERROR_TRY_AGAIN"
  "invoke_validate_input h d \<noteq> ML_ERROR_NOT_SUPPORTED"
  by (simp_all add: invoke_validate_input_def)

lemma invoke_clear_previous_flag:
  "invoke_clear_previous h = Some h1 \<Longrightarrow> \<not> clear_previous_buffer h1"
  by (auto simp: invoke_clear_previous_def ML_SINGLE_SUPPORT_TIMEOUT_def split: if_splits option.splits)

lemma invoke_flag_after:
  assumes "ml_single_invoke (Some h) input output env = Returns (st, out, Some h')"
  shows "clear_previous_buffer h' \<longleftrightarrow>
           (st = ML_ERROR_TIMED_OUT \<or> (st = ML_ERROR_INVALID_PARAMETER \<and> clear_previous_buffer h))"
  using assms invoke_validate_input_cases [of h]
  by (auto simp: ml_single_invoke_def ML_SINGLE_SUPPORT_TIMEOUT_def ml_tensors_data_create_def
           dest: invoke_clear_previous_flag
           split: option.splits if_splits prod.splits)

lemma invoke_timed_out_flag:
  assumes "ml_single_invoke single input output env = Returns (ML_ERROR_TIMED_OUT, out, after)"
  shows "out = Some None \<and> (\<exists>h1. after = Some h1 \<and> clear_previous_buffer h1)"
proof (cases single)
  case None
  with assms show ?thesis by (simp add: ml_single_invoke_def)
next
  case (Some h)
  with assms invoke_validate_input_cases [of h] show ?thesis
    by (auto simp: ml_single_invoke_def ML_SINGLE_SUPPORT_TIMEOUT_def ml_tensors_data_create_def
           split: option.splits if_splits prod.splits)
qed

lemma set_timeout_flag:
  "ml_single_set_timeout (Some g) tmo = Returns (st, Some g') \<Longrightarrow>
   clear_previous_buffer g' = clear_previous_buffer g"
  by (auto simp: ml_single_set_timeout_def split: if_splits)

lemma frames_elapse_one:
  "frames_elapse t mx dr [(r, b)] [] = (if r \<le> t then ([], [b]) else ([(r - t, b)], []))"
  by (auto simp: appsink_arrive_def)

lemma single_inv_elapse:
  assumes "single_inv h"
  shows "single_inv (h\<lparr>pipe := pipeline_elapse t (pipe h)\<rparr>)"
proof (cases "clear_previous_buffer h")
  case False
  with assms show ?thesis by (simp add: single_inv_def pipeline_elapse_def)
next
  case True
  with assms have one: "length (in_flight (pipe h)) + length (sink_queue (pipe h)) \<le> 1"
    by (simp add: single_inv_def)
  show ?thesis
  proof (cases "in_flight (pipe h)")
    case Nil
    with True one show ?thesis by (simp add: single_inv_def pipeline_elapse_def)
  next
    case (Cons f fs)
    with one have fs: "fs = []" and q: "sink_queue (pipe h) = []" by simp_all
    obtain r b where f: "f = (r, b)" by (cases f)
    from Cons fs q f True show ?thesis
      by (simp add: single_inv_def pipeline_elapse_def frames_elapse_one del: frames_elapse.simps)
  qed
qed

lemma pipeline_elapse_fields:
  "filter_invoke (pipeline_elapse t p) = filter_invoke p"
  by (simp add: pipeline_elapse_def split: prod.splits)

lemma single_live_elapse:
  "single_live (h\<lparr>pipe := p\<rparr>) = single_live h"
  by (simp add: single_live_def)

lemma invoke_validate_input_pipe:
  "invoke_validate_input (h\<lparr>pipe := p\<rparr>) d = invoke_validate_input h d"
  by (simp add: invoke_validate_input_def)

lemma invoke_timed_out_state:
  assumes "single_live h" and "single_inv h"
      and "ml_single_invoke (Some h) (Some d) (Some slot) env = Returns (ML_ERROR_TIMED_OUT, out, after)"
  shows "after = Some ((drained h)\<lparr>pipe := (pipe (drained h))\<lparr>in_flight :=
                     [(latency env - wait_ns h, filter_invoke (pipe h) (invoke_wrap_input d))]\<rparr>,
                   clear_previous_buffer := True\<rparr>)"
proof (cases "invoke_validate_input h d = ML_ERROR_NONE")
  case False
  from invoke_invalid_input [OF assms(1) False, of slot env] assms(3) show ?thesis by simp
next
  case True
  from invoke_normal_form [OF assms(1) assms(2) True, of slot env] assms(3) show ?thesis
    by (auto split: if_splits option.splits)
qed

lemma invoke_success_state:
  assumes "single_live h" and "single_inv h"
      and "ml_single_invoke (Some h) (Some d) (Some slot) env = Returns (ML_ERROR_NONE, out, after)"
  shows "after = Some (drained h) \<and>
         (\<exists>r. invoke_copy_result (fresh_output h) (filter_invoke (pipe h) (invoke_wrap_input d)) =
                 Some r \<and> out = Some (Some r))"
proof (cases "invoke_validate_input h d = ML_ERROR_NONE")
  case False
  from invoke_invalid_input [OF assms(1) False, of slot env] assms(3) show ?thesis by simp
next
  case True
  from invoke_normal_form [OF assms(1) assms(2) True, of slot env] assms(3) show ?thesis
    by (auto simp: fresh_output_def split: if_splits option.splits)
qed

lemma invoke_after_cleanup:
  assumes "single_live h" and "clear_previous_buffer h"
      and "invoke_validate_input h d = ML_ERROR_NONE"
      and "gst_app_sink_pull_sample (pipe h) = Some (s, p1)"
  shows "ml_single_invoke (Some h) (Some d) (Some slot) env =
         ml_single_invoke (Some (h\<lparr>pipe := p1, clear_previous_buffer := False\<rparr>))
           (Some d) (Some slot) env"
proof -
  let ?g = "h\<lparr>pipe := p1, clear_previous_buffer := False\<rparr>"
  have "invoke_validate_input ?g d = invoke_validate_input h d"
    by (simp add: invoke_validate_input_def)
  with assms(3) have v: "invoke_validate_input ?g d = ML_ERROR_NONE" by simp
  have c1: "invoke_clear_previous h = Some ?g"
    using assms(2,4) by (simp add: invoke_clear_previous_def ML_SINGLE_SUPPORT_TIMEOUT_def)
  have c2: "invoke_clear_previous ?g = Some ?g"
    by (simp add: invoke_clear_previous_def)
  from assms(1) have m: "magic h = ML_SINGLE_MAGIC" "\<not> lock h" by (simp_all add: single_live_def)
  show ?thesis
    by (simp add: ml_single_invoke_def m v assms(3) c1 c2)
qed

lemma invoke_cleanup_blocks:
  assumes "single_live h" and "clear_previous_buffer h"
      and "invoke_validate_input h d = ML_ERROR_NONE"
      and "gst_app_sink_pull_sample (pipe h) = None"
  shows "ml_single_invoke (Some h) (Some d) (Some slot) env = Blocks"
  using assms
  by (simp add: ml_single_invoke_def single_live_def invoke_clear_previous_def
      ML_SINGLE_SUPPORT_TIMEOUT_def)

text \<open>
  C1, as amended.  The handle is as \<^verbatim>\<open>ml_single_open\<close> and earlier calls leave it: its
  pipeline holds no frame, or at most the stale one when the flag is set.  A call that
  times out leaves the caller's slot NULL and the flag set.  When the next call on the
  handle, after any time has passed, succeeds, its result is the copy of the frame the
  model computed from its own input, and no frame is left in the pipeline.  The flag is
  set on return of a call of \<^verbatim>\<open>ml_single_invoke\<close> exactly when that call timed out, or
  was rejected as invalid-parameter while the flag was already set;
  \<^verbatim>\<open>ml_single_set_timeout\<close> leaves the flag as it is.  Every call that starts with the
  flag set and whose input passes the checks pulls one sample from the appsink before
  it pushes: it goes on as a call on the handle with the pulled sample removed and the
  flag cleared, and does not return while the pull gets nothing.
\<close>

theorem timeout_self_healing:
  assumes "single_live h" and "single_inv h"
      and "ml_single_invoke (Some h) (Some d) (Some slot) env = Returns (ML_ERROR_TIMED_OUT, out, after)"
  shows "out = Some None \<and>
         (\<exists>h1. after = Some h1 \<and> clear_previous_buffer h1 \<and>
            (\<forall>t d2 slot2 env2 out2 after2.
               ml_single_invoke (Some (h1\<lparr>pipe := pipeline_elapse t (pipe h1)\<rparr>))
                   (Some d2) (Some slot2) env2 = Returns (ML_ERROR_NONE, out2, after2) \<longrightarrow>
               (\<exists>r. invoke_copy_result (fresh_output h)
                       (filter_invoke (pipe h) (invoke_wrap_input d2)) = Some r \<and>
                    out2 = Some (Some r)) \<and>
               (\<exists>h2. after2 = Some h2 \<and> in_flight (pipe h2) = [] \<and> sink_queue (pipe h2) = []))) \<and>
         (\<forall>g input output e st o' g'.
            ml_single_invoke (Some g) input output e = Returns (st, o', Some g') \<longrightarrow>
            (clear_previous_buffer g' \<longleftrightarrow>
               st = ML_ERROR_TIMED_OUT \<or> (st = ML_ERROR_INVALID_PARAMETER \<and> clear_previous_buffer g))) \<and>
         (\<forall>g tmo st g'.
            ml_single_set_timeout (Some g) tmo = Returns (st, Some g') \<longrightarrow>
            clear_previous_buffer g' = clear_previous_buffer g) \<and>
         (\<forall>g x s e.
            single_live g \<and> clear_previous_buffer g \<and> invoke_validate_input g x = ML_ERROR_NONE \<longrightarrow>
            (gst_app_sink_pull_sample (pipe g) = None \<longrightarrow>
               ml_single_invoke (Some g) (Some x) (Some s) e = Blocks) \<and>
            (\<forall>smp p1. gst_app_sink_pull_sample (pipe g) = Some (smp, p1) \<longrightarrow>
               ml_single_invoke (Some g) (Some x) (Some s) e =
               ml_single_invoke (Some (g\<lparr>pipe := p1, clear_previous_buffer := False\<rparr>))
                 (Some x) (Some s) e))"
proof -
  define h1 where "h1 = (drained h)\<lparr>pipe := (pipe (drained h))\<lparr>in_flight :=
                     [(latency env - wait_ns h, filter_invoke (pipe h) (invoke_wrap_input d))]\<rparr>,
                   clear_previous_buffer := True\<rparr>"
  have after: "after = Some h1"
    unfolding h1_def using assms by (rule invoke_timed_out_state)
  have out: "out = Some None"
    using invoke_timed_out_flag [OF assms(3)] by simp
  have flag: "clear_previous_buffer h1" by (simp add: h1_def)
  have live1: "single_live h1" using assms(1) by (simp add: h1_def drained_def single_live_def)
  have inv1: "single_inv h1" by (simp add: h1_def drained_def single_inv_def)
  have oi: "fresh_output h1 = fresh_output h" by (simp add: h1_def drained_def fresh_output_def)
  have fi: "filter_invoke (pipe h1) = filter_invoke (pipe h)" by (simp add: h1_def drained_def)
  have second: "(\<exists>r. invoke_copy_result (fresh_output h)
                       (filter_invoke (pipe h) (invoke_wrap_input d2)) = Some r \<and>
                    out2 = Some (Some r)) \<and>
               (\<exists>h2. after2 = Some h2 \<and> in_flight (pipe h2) = [] \<and> sink_queue (pipe h2) = [])"
    if r: "ml_single_invoke (Some (h1\<lparr>pipe := pipeline_elapse t (pipe h1)\<rparr>))
                   (Some d2) (Some slot2) env2 = Returns (ML_ERROR_NONE, out2, after2)"
    for t d2 slot2 env2 out2 after2
  proof -
    let ?g = "h1\<lparr>pipe := pipeline_elapse t (pipe h1)\<rparr>"
    have lg: "single_live ?g" using live1 by (simp add: single_live_elapse)
    have ig: "single_inv ?g" using inv1 by (rule single_inv_elapse)
    have og: "fresh_output ?g = fresh_output h" using oi by (simp add: fresh_output_def)
    have fg: "filter_invoke (pipe ?g) = filter_invoke (pipe h)"
      using fi by (simp add: pipeline_elapse_fields)
    from invoke_success_state [OF lg ig r] show ?thesis
      unfolding og fg by (auto simp: drained_def)
  qed
  have drain: "(gst_app_sink_pull_sample (pipe g) = None \<longrightarrow>
               ml_single_invoke (Some g) (Some x) (Some s) e = Blocks) \<and>
            (\<forall>smp p1. gst_app_sink_pull_sample (pipe g) = Some (smp, p1) \<longrightarrow>
               ml_single_invoke (Some g) (Some x) (Some s) e =
               ml_single_invoke (Some (g\<lparr>pipe := p1, clear_previous_buffer := False\<rparr>))
                 (Some x) (Some s) e)"
    if "single_live g" "clear_previous_buffer g" "invoke_validate_input g x = ML_ERROR_NONE"
    for g x s e
    using invoke_cleanup_blocks [OF that, of s e] invoke_after_cleanup [OF that, of _ _ s e]
    by blast
  have a: "\<exists>h1. after = Some h1 \<and> clear_previous_buffer h1 \<and>
            (\<forall>t d2 slot2 env2 out2 after2.
               ml_single_invoke (Some (h1\<lparr>pipe := pipeline_elapse t (pipe h1)\<rparr>))
                   (Some d2) (Some slot2) env2 = Returns (ML_ERROR_NONE, out2, after2) \<longrightarrow>
               (\<exists>r. invoke_copy_result (fresh_output h)
                       (filter_invoke (pipe h) (invoke_wrap_input d2)) = Some r \<and>
                    out2 = Some (Some r)) \<and>
               (\<exists>h2. after2 = Some h2 \<and> in_flight (pipe h2) = [] \<and> sink_queue (pipe h2) = []))"
    using after flag second by blast
  have b: "\<forall>g input output e st o' g'.
            ml_single_invoke (Some g) input output e = Returns (st, o', Some g') \<longrightarrow>
            (clear_previous_buffer g' \<longleftrightarrow>
               st = ML_ERROR_TIMED_OUT \<or> (st = ML_ERROR_INVALID_PARAMETER \<and> clear_previous_buffer g))"
    using invoke_flag_after by blast
  have c: "\<forall>g tmo st g'.
            ml_single_set_timeout (Some g) tmo = Returns (st, Some g') \<longrightarrow>
            clear_previous_buffer g' = clear_previous_buffer g"
    using set_timeout_flag by blast
  have e: "\<forall>g x s e.
            single_live g \<and> clear_previous_buffer g \<and> invoke_validate_input g x = ML_ERROR_NONE \<longrightarrow>
            (gst_app_sink_pull_sample (pipe g) = None \<longrightarrow>
               ml_single_invoke (Some g) (Some x) (Some s) e = Blocks) \<and>
            (\<forall>smp p1. gst_app_sink_pull_sample (pipe g) = Some (smp, p1) \<longrightarrow>
               ml_single_invoke (Some g) (Some x) (Some s) e =
               ml_single_invoke (Some (g\<lparr>pipe := p1, clear_previous_buffer := False\<rparr>))
                 (Some x) (Some s) e)"
    using drain by blast
  show ?thesis by (intro conjI out a b c e)
qed


lemma ex_single_live: "single_live ex_single"
  by (simp add: single_live_def ex_single_def)

lemma ex_single_inv: "single_inv ex_single"
  by (simp add: single_inv_def ex_single_def ex_pipeline_def)

lemma ex_stale_live: "single_live ex_stale"
  by (simp add: single_live_def ex_stale_def ex_single_def)

lemma ex_stale_inv: "single_inv ex_stale"
  by (simp add: single_inv_def ex_stale_def ex_single_def ex_pipeline_def)

lemma ex_lost_inv: "single_inv ex_lost"
  by (simp add: single_inv_def ex_lost_def ex_single_def ex_pipeline_def)

lemma ex_wait_ns: "wait_ns ex_single = 3000000000"
  by (simp add: wait_ns_eq ex_single_def SINGLE_DEFAULT_TIMEOUT_def)

lemma ex_validate: "invoke_validate_input ex_single (ex_data [a, b, c, e]) = ML_ERROR_NONE"
  by (simp add: invoke_validate_input_def ex_single_def ex_data_def ex_info4_def
      ml_tensor_info_get_size_def)

lemma ex_validate_stale: "invoke_validate_input ex_stale (ex_data [a, b, c, e]) = ML_ERROR_NONE"
  by (simp add: invoke_validate_input_def ex_stale_def ex_single_def ex_data_def ex_info4_def
      ml_tensor_info_get_size_def)

lemma ex_wrap: "invoke_wrap_input (ex_data [a, b, c, e]) = [[a, b, c, e]]"
  by (simp add: invoke_wrap_input_def ex_data_def)

lemma ex_single_flag: "\<not> clear_previous_buffer ex_single"
  by (simp add: ex_single_def)

lemma ex_first_call:
  "ml_single_invoke (Some ex_single) (Some (ex_data [1, 2, 3, 4])) (Some None) ex_slow =
     Returns (ML_ERROR_TIMED_OUT, Some None, Some ex_stale)"
  by (simp add: invoke_normal_form [OF ex_single_live ex_single_inv ex_validate] ex_wait_ns ex_wrap
        ex_single_flag)
     (simp add: ex_slow_def ex_stale_def drained_def ex_single_def ex_pipeline_def)

lemma ex_elapse_stale:
  "pipeline_elapse 1000000000 (pipe ex_stale) =
     (pipe ex_stale)\<lparr>in_flight := [(1000000000, [[1, 2, 3, 4]])]\<rparr>"
  by (simp add: pipeline_elapse_def ex_stale_def ex_single_def ex_pipeline_def)

lemma ex_stale_elapsed:
  "ex_stale\<lparr>pipe := pipeline_elapse 1000000000 (pipe ex_stale)\<rparr> =
     ex_single\<lparr>pipe := (pipe ex_single)\<lparr>in_flight := [(1000000000, [[1, 2, 3, 4]])]\<rparr>,
               clear_previous_buffer := True\<rparr>"
  by (simp add: ex_elapse_stale) (simp add: ex_stale_def)

lemma ex_second_call_stale:
  "ml_single_invoke (Some (ex_stale\<lparr>pipe := pipeline_elapse 1000000000 (pipe ex_stale)\<rparr>))
       (Some (ex_data [9, 8, 7, 6])) (Some None) ex_fast =
     Returns (ML_ERROR_NONE, Some (Some (ex_data [9, 8, 7, 6])), Some ex_single)"
proof -
  let ?g = "ex_single\<lparr>pipe := (pipe ex_single)\<lparr>in_flight := [(1000000000, [[1, 2, 3, 4]])]\<rparr>,
               clear_previous_buffer := True\<rparr>"
  have l: "single_live ?g" by (simp add: single_live_def ex_single_def)
  have i: "single_inv ?g" by (simp add: single_inv_def ex_single_def ex_pipeline_def)
  have v: "invoke_validate_input ?g (ex_data [9, 8, 7, 6]) = ML_ERROR_NONE"
    by (simp add: invoke_validate_input_def ex_single_def ex_data_def ex_info4_def
      ml_tensor_info_get_size_def)
  have w: "wait_ns ?g = 3000000000"
    by (simp add: wait_ns_eq ex_single_def SINGLE_DEFAULT_TIMEOUT_def)
  have "ml_single_invoke (Some ?g) (Some (ex_data [9, 8, 7, 6])) (Some None) ex_fast =
     Returns (ML_ERROR_NONE, Some (Some (ex_data [9, 8, 7, 6])), Some ex_single)"
    by (simp add: invoke_normal_form [OF l i v] w ex_wrap)
       (simp add: ex_fast_def drained_def ex_single_def ex_pipeline_def ex_info4_def ex_data_def
          ml_tensors_data_create_def invoke_copy_result_def ml_tensor_info_get_size_def
          ML_TENSOR_SIZE_LIMIT_def gst_app_sink_pull_sample_def)
  then show ?thesis by (simp add: ex_stale_elapsed)
qed

lemma ex_pull_stale:
  "gst_app_sink_pull_sample (pipe ex_stale) = Some (Some [[1, 2, 3, 4]], pipe ex_single)"
  by (simp add: gst_app_sink_pull_sample_def ex_stale_def ex_single_def ex_pipeline_def)

lemma ex_stale_cleared: "ex_stale\<lparr>pipe := pipe ex_single, clear_previous_buffer := False\<rparr> = ex_single"
  by (simp add: ex_stale_def ex_single_def)

lemma ex_second_call:
  "ml_single_invoke (Some ex_single) (Some (ex_data [9, 8, 7, 6])) (Some None) ex_fast =
     Returns (ML_ERROR_NONE, Some (Some (ex_data [9, 8, 7, 6])), Some ex_single)"
  by (simp add: invoke_normal_form [OF ex_single_live ex_single_inv ex_validate] ex_wait_ns ex_wrap
        ex_single_flag)
     (simp add: ex_fast_def drained_def ex_single_def ex_pipeline_def ex_info4_def ex_data_def
        ml_tensors_data_create_def invoke_copy_result_def ml_tensor_info_get_size_def
        ML_TENSOR_SIZE_LIMIT_def)

lemma ex_lost_blocked:
  "single_live ex_lost \<and> clear_previous_buffer ex_lost \<and>
   invoke_validate_input ex_lost (ex_data [9, 8, 7, 6]) = ML_ERROR_NONE \<and>
   gst_app_sink_pull_sample (pipe ex_lost) = None"
  by (simp add: ex_lost_def ex_single_def single_live_def invoke_validate_input_def ex_data_def
      ex_info4_def ml_tensor_info_get_size_def gst_app_sink_pull_sample_def ex_pipeline_def)

lemma ex_short_invalid: "invoke_validate_input ex_stale (ex_data [9, 8, 7]) \<noteq> ML_ERROR_NONE"
  by (simp add: invoke_validate_input_def ex_stale_def ex_single_def ex_data_def ex_info4_def
      ml_tensor_info_get_size_def)

lemma ex_set_timeout_stale:
  "ml_single_set_timeout (Some ex_stale) 5000 =
     Returns (ML_ERROR_NONE, Some (ex_stale\<lparr>timeout := 5000\<rparr>))"
  using ex_stale_live
  by (simp add: ml_single_set_timeout_def ML_SINGLE_SUPPORT_TIMEOUT_def single_live_def)

theorem timeout_self_healing_witness:
  "single_live ex_single \<and> single_inv ex_single \<and>
   ml_single_invoke (Some ex_single) (Some (ex_data [1, 2, 3, 4])) (Some None) ex_slow =
     Returns (ML_ERROR_TIMED_OUT, Some None, Some ex_stale) \<and>
   clear_previous_buffer ex_stale \<and>
   ml_single_invoke (Some (ex_stale\<lparr>pipe := pipeline_elapse 1000000000 (pipe ex_stale)\<rparr>))
       (Some (ex_data [9, 8, 7, 6])) (Some None) ex_fast =
     Returns (ML_ERROR_NONE, Some (Some (ex_data [9, 8, 7, 6])), Some ex_single) \<and>
   invoke_copy_result (fresh_output ex_single)
       (filter_invoke (pipe ex_single) (invoke_wrap_input (ex_data [9, 8, 7, 6]))) =
     Some (ex_data [9, 8, 7, 6]) \<and>
   in_flight (pipe ex_single) = [] \<and> sink_queue (pipe ex_single) = [] \<and>
   ml_single_set_timeout (Some ex_stale) 5000 =
     Returns (ML_ERROR_NONE, Some (ex_stale\<lparr>timeout := 5000\<rparr>)) \<and>
   clear_previous_buffer (ex_stale\<lparr>timeout := 5000\<rparr>) \<and>
   single_live ex_stale \<and>
   invoke_validate_input ex_stale (ex_data [9, 8, 7, 6]) = ML_ERROR_NONE \<and>
   gst_app_sink_pull_sample (pipe ex_stale) = Some (Some [[1, 2, 3, 4]], pipe ex_single) \<and>
   ml_single_invoke (Some ex_stale) (Some (ex_data [9, 8, 7, 6])) (Some None) ex_fast =
     ml_single_invoke (Some (ex_stale\<lparr>pipe := pipe ex_single, clear_previous_buffer := False\<rparr>))
       (Some (ex_data [9, 8, 7, 6])) (Some None) ex_fast \<and>
   single_live ex_lost \<and> clear_previous_buffer ex_lost \<and>
   invoke_validate_input ex_lost (ex_data [9, 8, 7, 6]) = ML_ERROR_NONE \<and>
   gst_app_sink_pull_sample (pipe ex_lost) = None \<and>
   ml_single_invoke (Some ex_lost) (Some (ex_data [9, 8, 7, 6])) (Some None) ex_fast = Blocks"
proof -
  note t = timeout_self_healing [OF ex_single_live ex_single_inv ex_first_call]
  from t [THEN conjunct2, THEN conjunct1] obtain h1 where
    x: "Some ex_stale = Some h1 \<and> clear_previous_buffer h1 \<and>
        (\<forall>t d2 slot2 env2 out2 after2.
           ml_single_invoke (Some (h1\<lparr>pipe := pipeline_elapse t (pipe h1)\<rparr>))
               (Some d2) (Some slot2) env2 = Returns (ML_ERROR_NONE, out2, after2) \<longrightarrow>
           (\<exists>r. invoke_copy_result (fresh_output ex_single)
                   (filter_invoke (pipe ex_single) (invoke_wrap_input d2)) = Some r \<and>
                out2 = Some (Some r)) \<and>
           (\<exists>h2. after2 = Some h2 \<and> in_flight (pipe h2) = [] \<and> sink_queue (pipe h2) = []))" ..
  from x have e1: "h1 = ex_stale" by simp
  note flag = x [THEN conjunct2, THEN conjunct1, unfolded e1]
  note nxt = x [THEN conjunct2, THEN conjunct2, unfolded e1, rule_format]
  from nxt [OF ex_second_call_stale]
  have own: "invoke_copy_result (fresh_output ex_single)
       (filter_invoke (pipe ex_single) (invoke_wrap_input (ex_data [9, 8, 7, 6]))) =
     Some (ex_data [9, 8, 7, 6])"
    and empty: "in_flight (pipe ex_single) = []" "sink_queue (pipe ex_single) = []"
    by auto
  note keep = t [THEN conjunct2, THEN conjunct2, THEN conjunct2, THEN conjunct1, rule_format]
  from keep [OF ex_set_timeout_stale] flag
  have kept: "clear_previous_buffer (ex_stale\<lparr>timeout := 5000\<rparr>)" by simp
  note drain = t [THEN conjunct2, THEN conjunct2, THEN conjunct2, THEN conjunct2, rule_format]
  have sv: "single_live ex_stale \<and> clear_previous_buffer ex_stale \<and>
            invoke_validate_input ex_stale (ex_data [9, 8, 7, 6]) = ML_ERROR_NONE"
    using ex_stale_live flag ex_validate_stale by simp
  from drain [OF sv] ex_pull_stale
  have a: "ml_single_invoke (Some ex_stale) (Some (ex_data [9, 8, 7, 6])) (Some None) ex_fast =
     ml_single_invoke (Some (ex_stale\<lparr>pipe := pipe ex_single, clear_previous_buffer := False\<rparr>))
       (Some (ex_data [9, 8, 7, 6])) (Some None) ex_fast"
    by blast
  from ex_lost_blocked have ll: "single_live ex_lost" and lf: "clear_previous_buffer ex_lost"
    and lv: "invoke_validate_input ex_lost (ex_data [9, 8, 7, 6]) = ML_ERROR_NONE"
    and lp: "gst_app_sink_pull_sample (pipe ex_lost) = None"
    by simp_all
  have lsv: "single_live ex_lost \<and> clear_previous_buffer ex_lost \<and>
            invoke_validate_input ex_lost (ex_data [9, 8, 7, 6]) = ML_ERROR_NONE"
    using ll lf lv by simp
  from drain [OF lsv] lp
  have b: "ml_single_invoke (Some ex_lost) (Some (ex_data [9, 8, 7, 6])) (Some None) ex_fast = Blocks"
    by blast
  show ?thesis
    by (intro conjI ex_single_live ex_single_inv ex_first_call flag ex_second_call_stale own empty
        ex_set_timeout_stale kept ex_stale_live ex_validate_stale ex_pull_stale a ll lf lv lp b)
qed

lemma ex_short_rejected:
  "ml_single_invoke (Some ex_stale) (Some (ex_data [9, 8, 7])) (Some None) ex_fast =
     Returns (ML_ERROR_INVALID_PARAMETER, Some None, Some ex_stale)"
  using ex_stale_live ex_short_invalid by (rule invoke_invalid_input)


text \<open>
  C1 as stated fails: after a call has timed out, a call whose input is one byte short
  returns invalid-parameter with the flag still set and the stale frame still in
  flight; the flag is set on return of an operation that did not time out, and the call
  started with the flag set and drained nothing.
\<close>

theorem flag_iff_timed_out_counterexample:
  "ml_single_invoke (Some ex_single) (Some (ex_data [1, 2, 3, 4])) (Some None) ex_slow =
     Returns (ML_ERROR_TIMED_OUT, Some None, Some ex_stale) \<and>
   ml_single_invoke (Some ex_stale) (Some (ex_data [9, 8, 7])) (Some None) ex_fast =
     Returns (ML_ERROR_INVALID_PARAMETER, Some None, Some ex_stale) \<and>
   clear_previous_buffer ex_stale \<and>
   in_flight (pipe ex_stale) = [(2000000000, [[1, 2, 3, 4]])]"
  using ex_first_call ex_short_rejected
  by (simp add: ex_stale_def)

text \<open>
  C2, as amended.  On a live handle whose flag is set, a call whose input fails the
  checks returns invalid-parameter and leaves the flag and the pipeline alone.  A call
  whose input passes them first pulls one sample with the blocking
  \<^verbatim>\<open>gst_app_sink_pull_sample\<close>: while no sample and no end-of-stream comes, the call does
  not return; once the pull returns, the call goes on exactly as a call on the handle
  with the pulled sample removed and the flag cleared, so the push comes after.
\<close>

theorem cleanup_is_blocking_pull:
  assumes "single_live h" and "clear_previous_buffer h"
  shows "(invoke_validate_input h d \<noteq> ML_ERROR_NONE \<longrightarrow>
            ml_single_invoke (Some h) (Some d) (Some slot) env =
              Returns (ML_ERROR_INVALID_PARAMETER, Some None, Some h)) \<and>
         (invoke_validate_input h d = ML_ERROR_NONE \<longrightarrow>
            (gst_app_sink_pull_sample (pipe h) = None \<longrightarrow>
               ml_single_invoke (Some h) (Some d) (Some slot) env = Blocks) \<and>
            (\<forall>s p1. gst_app_sink_pull_sample (pipe h) = Some (s, p1) \<longrightarrow>
               ml_single_invoke (Some h) (Some d) (Some slot) env =
               ml_single_invoke (Some (h\<lparr>pipe := p1, clear_previous_buffer := False\<rparr>))
                 (Some d) (Some slot) env))"
  using invoke_invalid_input [OF assms(1), of d slot env]
        invoke_cleanup_blocks [OF assms, of d slot env]
        invoke_after_cleanup [OF assms, of d _ _ slot env]
  by blast

theorem cleanup_is_blocking_pull_witness:
  "single_live ex_stale \<and> clear_previous_buffer ex_stale \<and>
   invoke_validate_input ex_stale (ex_data [9, 8, 7, 6]) = ML_ERROR_NONE \<and>
   gst_app_sink_pull_sample (pipe ex_stale) = Some (Some [[1, 2, 3, 4]], pipe ex_single) \<and>
   ml_single_invoke (Some ex_stale) (Some (ex_data [9, 8, 7, 6])) (Some None) ex_fast =
     Returns (ML_ERROR_NONE, Some (Some (ex_data [9, 8, 7, 6])), Some ex_single) \<and>
   invoke_validate_input ex_stale (ex_data [9, 8, 7]) \<noteq> ML_ERROR_NONE \<and>
   ml_single_invoke (Some ex_stale) (Some (ex_data [9, 8, 7])) (Some None) ex_fast =
     Returns (ML_ERROR_INVALID_PARAMETER, Some None, Some ex_stale) \<and>
   single_live ex_lost \<and> clear_previous_buffer ex_lost \<and>
   invoke_validate_input ex_lost (ex_data [9, 8, 7, 6]) = ML_ERROR_NONE \<and>
   gst_app_sink_pull_sample (pipe ex_lost) = None \<and>
   ml_single_invoke (Some ex_lost) (Some (ex_data [9, 8, 7, 6])) (Some None) ex_fast = Blocks"
proof -
  have flag: "clear_previous_buffer ex_stale" by (simp add: ex_stale_def)
  from cleanup_is_blocking_pull [OF ex_stale_live flag, of "ex_data [9, 8, 7, 6]" None ex_fast]
       ex_validate_stale ex_pull_stale
  have "ml_single_invoke (Some ex_stale) (Some (ex_data [9, 8, 7, 6])) (Some None) ex_fast =
        ml_single_invoke (Some (ex_stale\<lparr>pipe := pipe ex_single, clear_previous_buffer := False\<rparr>))
          (Some (ex_data [9, 8, 7, 6])) (Some None) ex_fast"
    by blast
  with ex_stale_cleared ex_second_call
  have a: "ml_single_invoke (Some ex_stale) (Some (ex_data [9, 8, 7, 6])) (Some None) ex_fast =
     Returns (ML_ERROR_NONE, Some (Some (ex_data [9, 8, 7, 6])), Some ex_single)"
    by simp
  from cleanup_is_blocking_pull [OF ex_stale_live flag, of "ex_data [9, 8, 7]" None ex_fast]
       ex_short_invalid
  have b: "ml_single_invoke (Some ex_stale) (Some (ex_data [9, 8, 7])) (Some None) ex_fast =
     Returns (ML_ERROR_INVALID_PARAMETER, Some None, Some ex_stale)"
    by blast
  from ex_lost_blocked have ll: "single_live ex_lost" and lf: "clear_previous_buffer ex_lost"
    by simp_all
  from ex_lost_blocked
  have lv: "invoke_validate_input ex_lost (ex_data [9, 8, 7, 6]) = ML_ERROR_NONE"
    and lp: "gst_app_sink_pull_sample (pipe ex_lost) = None"
    by simp_all
  from cleanup_is_blocking_pull [OF ll lf, of "ex_data [9, 8, 7, 6]" None ex_fast] lv lp
  have c: "ml_single_invoke (Some ex_lost) (Some (ex_data [9, 8, 7, 6])) (Some None) ex_fast = Blocks"
    by simp
  from ex_stale_live flag ex_validate_stale ex_pull_stale a ex_short_invalid b ex_lost_blocked c
  show ?thesis by simp
qed

text \<open>
  C2 as stated fails: with the stale frame still two seconds from the appsink,
  \<^verbatim>\<open>tryDrainFrame\<close> returns "empty" and leaves the pipeline as it is, while the cleanup
  of \<^verbatim>\<open>ml_single_invoke\<close> waits for that frame and removes it; and on a flagged handle
  whose pipeline holds no frame the call never returns.
\<close>

theorem nonblocking_drain_counterexample:
  "tryDrainFrame (pipe ex_stale) = (None, pipe ex_stale) \<and>
   invoke_clear_previous ex_stale = Some ex_single \<and>
   in_flight (pipe ex_stale) = [(2000000000, [[1, 2, 3, 4]])] \<and>
   in_flight (pipe ex_single) = [] \<and>
   single_live ex_lost \<and> clear_previous_buffer ex_lost \<and>
   ml_single_invoke (Some ex_lost) (Some (ex_data [9, 8, 7, 6])) (Some None) ex_fast = Blocks"
proof -
  have a: "tryDrainFrame (pipe ex_stale) = (None, pipe ex_stale)"
    by (simp add: tryDrainFrame_def ex_stale_def ex_single_def ex_pipeline_def)
  have b: "invoke_clear_previous ex_stale = Some ex_single"
    using ex_pull_stale ex_stale_cleared
    by (simp add: invoke_clear_previous_def ML_SINGLE_SUPPORT_TIMEOUT_def ex_stale_def)
  have c: "in_flight (pipe ex_stale) = [(2000000000, [[1, 2, 3, 4]])]"
    "in_flight (pipe ex_single) = []"
    by (simp_all add: ex_stale_def ex_single_def ex_pipeline_def)
  have l: "single_live ex_lost" "clear_previous_buffer ex_lost"
    by (simp_all add: ex_lost_def ex_single_def single_live_def)
  have v: "invoke_validate_input ex_lost (ex_data [9, 8, 7, 6]) = ML_ERROR_NONE"
    by (simp add: invoke_validate_input_def ex_lost_def ex_single_def ex_data_def ex_info4_def
      ml_tensor_info_get_size_def)
  have p: "gst_app_sink_pull_sample (pipe ex_lost) = None"
    by (simp add: gst_app_sink_pull_sample_def ex_lost_def ex_single_def ex_pipeline_def)
  from invoke_cleanup_blocks [OF l v p] a b c l show ?thesis by simp
qed















lemma invoke_timeout_unchanged:
  assumes "ml_single_invoke (Some h) input output env = Returns (st, out, Some h')"
  shows "timeout h' = timeout h"
  using assms
  by (auto simp: ml_single_invoke_def invoke_clear_previous_def ML_SINGLE_SUPPORT_TIMEOUT_def
        ml_tensors_data_create_def
      split: option.splits if_splits prod.splits)

lemma invoke_times_out_iff:
  assumes "single_live h" and "single_inv h" and "invoke_validate_input h d = ML_ERROR_NONE"
      and "push_ret env = GST_FLOW_OK"
  shows "(\<exists>out after. ml_single_invoke (Some h) (Some d) (Some slot) env =
            Returns (ML_ERROR_TIMED_OUT, out, after)) \<longleftrightarrow>
         \<not> (clear_previous_buffer h \<and> gst_app_sink_pull_sample (pipe h) = None) \<and>
         1000000 * unat (timeout h) < latency env"
  using invoke_normal_form [OF assms(1,2,3), of slot env] assms(4)
  by (auto simp: wait_ns_eq split: option.splits)

subsection \<open>ml\_single\_open, ml\_single\_set\_timeout and ml\_single\_get\_tensors\_info\<close>

lemma open_allocate_fields:
  "timeout (fst (open_allocate p w)) = SINGLE_DEFAULT_TIMEOUT"
  "magic (fst (open_allocate p w)) = ML_SINGLE_MAGIC"
  "\<not> lock (fst (open_allocate p w))"
  "\<not> clear_previous_buffer (fst (open_allocate p w))"
  "pipe (fst (open_allocate p w)) = p"
  "src (fst (open_allocate p w)) \<noteq> None"
  "sink (fst (open_allocate p w)) \<noteq> None"
  "filter_elem (fst (open_allocate p w)) \<noteq> None"
  by (simp_all add: open_allocate_def)

lemma open_set_input_fields:
  assumes "open_set_input ii h = (st, h')"
  shows "timeout h' = timeout h \<and> magic h' = magic h \<and> lock h' = lock h \<and>
         clear_previous_buffer h' = clear_previous_buffer h \<and>
         src h' = src h \<and> sink h' = sink h \<and> filter_elem h' = filter_elem h \<and>
         out_info h' = out_info h \<and>
         in_flight (pipe h') = in_flight (pipe h) \<and> sink_queue (pipe h') = sink_queue (pipe h) \<and>
         filter_invoke (pipe h') = filter_invoke (pipe h) \<and>
         filter_input_props (pipe h') = filter_input_props (pipe h) \<and>
         filter_output_props (pipe h') = filter_output_props (pipe h)"
  using assms
  by (auto simp: open_set_input_def Let_def split: option.splits prod.splits if_splits)

lemma open_set_output_fields:
  assumes "open_set_output oi h = (st, h')"
  shows "timeout h' = timeout h \<and> magic h' = magic h \<and> lock h' = lock h \<and>
         clear_previous_buffer h' = clear_previous_buffer h \<and>
         src h' = src h \<and> sink h' = sink h \<and> filter_elem h' = filter_elem h \<and>
         in_info h' = in_info h \<and>
         in_flight (pipe h') = in_flight (pipe h) \<and> sink_queue (pipe h') = sink_queue (pipe h) \<and>
         filter_invoke (pipe h') = filter_invoke (pipe h) \<and>
         filter_input_props (pipe h') = filter_input_props (pipe h) \<and>
         filter_output_props (pipe h') = filter_output_props (pipe h)"
  using assms
  by (auto simp: open_set_output_def Let_def split: option.splits prod.splits if_splits)

lemma open_configure_fields:
  assumes "open_configure env ii oi h = (st, h')"
  shows "timeout h' = timeout h \<and> magic h' = magic h \<and> lock h' = lock h \<and>
         clear_previous_buffer h' = clear_previous_buffer h \<and>
         src h' = src h \<and> sink h' = sink h \<and> filter_elem h' = filter_elem h \<and>
         in_flight (pipe h') = in_flight (pipe h) \<and> sink_queue (pipe h') = sink_queue (pipe h) \<and>
         filter_invoke (pipe h') = filter_invoke (pipe h) \<and>
         filter_input_props (pipe h') = filter_input_props (pipe h) \<and>
         filter_output_props (pipe h') = filter_output_props (pipe h)"
proof -
  obtain s1 h1 where a: "open_set_input ii h = (s1, h1)" by (cases "open_set_input ii h")
  obtain s2 h2 where b: "open_set_output oi h1 = (s2, h2)" by (cases "open_set_output oi h1")
  note fa = open_set_input_fields [OF a]
  note fb = open_set_output_fields [OF b]
  from assms a b fa fb show ?thesis
    by (auto simp: open_configure_def Let_def split: if_splits)
qed


lemma close_after_allocate:
  assumes "magic h = ML_SINGLE_MAGIC" and "\<not> lock h"
      and "src h \<noteq> None" and "sink h \<noteq> None" and "filter_elem h \<noteq> None"
  shows "ml_single_close (Some h) ds
           (w\<lparr>live_pipelines := live_pipelines w + 1,
              element_refs := element_refs w + 3, live_handles := live_handles w + 1\<rparr>) =
         Returns (ds, w)"
  using assms
  by (auto simp: ml_single_close_def gst_object_unref_def ml_pipeline_destroy_graph_def Let_def)

lemma open_allocate_fst: "fst (open_allocate p w) = fst (open_allocate p w')"
  by (simp add: open_allocate_def)

lemma open_construct_result:
  obtains s0 p st h' w2 where
    "ml_pipeline_construct env desc = (s0, p)"
    "open_configure env ii oi (fst (open_allocate p w)) = (st, h')"
    "constructed w2 = constructed w @ [desc]"
    "live_pipelines w2 = live_pipelines w + 1"
    "element_refs w2 = element_refs w + 3"
    "live_handles w2 = live_handles w + 1"
    "open_construct env desc ii oi w =
      (if s0 \<noteq> ML_ERROR_NONE
         then Returns (s0, Some None, w\<lparr>constructed := constructed w @ [desc]\<rparr>)
       else if st \<noteq> ML_ERROR_NONE
         then Returns (st, Some None, w\<lparr>constructed := constructed w @ [desc]\<rparr>)
       else Returns (ML_ERROR_NONE, Some (Some h'), w2))"
proof -
  obtain s0 p where c: "ml_pipeline_construct env desc = (s0, p)"
    by (cases "ml_pipeline_construct env desc")
  define w1 where "w1 = w\<lparr>constructed := constructed w @ [desc]\<rparr>"
  define wp where "wp = w1\<lparr>live_pipelines := live_pipelines w1 + 1\<rparr>"
  define w2 where "w2 = w1\<lparr>live_pipelines := live_pipelines w1 + 1,
                   element_refs := element_refs w1 + 3, live_handles := live_handles w1 + 1\<rparr>"
  define h0 where "h0 = fst (open_allocate p wp)"
  have al: "open_allocate p wp = (h0, w2)"
    by (simp add: h0_def w2_def wp_def open_allocate_def)
  obtain st h' where k: "open_configure env ii oi h0 = (st, h')"
    by (cases "open_configure env ii oi h0")
  note f = open_configure_fields [OF k]
  have cl: "ml_single_close (Some h') (ml_pipeline_destroy env) w2 =
            Returns (ml_pipeline_destroy env, w1)"
    unfolding w2_def using f
    by (intro close_after_allocate) (simp_all add: h0_def open_allocate_fields)
  have lhs: "open_construct env desc ii oi w =
      (if s0 \<noteq> ML_ERROR_NONE then Returns (s0, Some None, w1)
       else if st \<noteq> ML_ERROR_NONE then Returns (st, Some None, w1)
       else Returns (ML_ERROR_NONE, Some (Some h'), w2))"
    unfolding open_construct_def c Let_def w1_def [symmetric] wp_def [symmetric]
    by (simp add: al k cl)
  have k': "open_configure env ii oi (fst (open_allocate p w)) = (st, h')"
    using k open_allocate_fst [of p w wp] by (simp add: h0_def)
  have w2f: "constructed w2 = constructed w @ [desc]" "live_pipelines w2 = live_pipelines w + 1"
    "element_refs w2 = element_refs w + 3" "live_handles w2 = live_handles w + 1"
    by (simp_all add: w2_def w1_def)
  from that [OF c k' w2f] lhs show thesis by (simp add: w1_def)
qed

lemma open_returns_cases:
  obtains (early) st where "st \<noteq> ML_ERROR_NONE"
      "ml_single_open single model ii oi nnfw hw env w =
         Returns (st, map_option (\<lambda>s. None) single, w)"
  | (built) desc where "single \<noteq> None"
      "ml_single_open single model ii oi nnfw hw env w = open_construct env desc ii oi w"
proof (cases single)
  case None
  then have "ml_single_open single model ii oi nnfw hw env w =
      Returns (ML_ERROR_INVALID_PARAMETER, map_option (\<lambda>s. None) single, w)"
    by (simp add: ml_single_open_def)
  then show thesis by (intro early [of ML_ERROR_INVALID_PARAMETER]) simp_all
next
  case (Some slot)
  show thesis
  proof (cases "open_check_params env model ii oi")
    case (Inl st)
    then have ne: "st \<noteq> ML_ERROR_NONE"
      by (auto simp: open_check_params_def split: if_splits option.splits)
    from Some Inl have "ml_single_open single model ii oi nnfw hw env w =
        Returns (st, map_option (\<lambda>s. None) single, w)"
      by (simp add: ml_single_open_def)
    with ne show thesis by (rule early)
  next
    case (Inr path)
    show thesis
    proof (cases "open_resolve env path nnfw hw")
      case (Inl st)
      then have ne: "st \<noteq> ML_ERROR_NONE"
        by (auto simp: open_resolve_def split: if_splits prod.splits)
      from Some Inr Inl have "ml_single_open single model ii oi nnfw hw env w =
          Returns (st, map_option (\<lambda>s. None) single, w)"
        by (simp add: ml_single_open_def)
      with ne show thesis by (rule early)
    next
      case nn: (Inr nnfw1)
      show thesis
      proof (cases "open_pipeline_desc env nnfw1 path ii oi")
        case (Inl st)
        then have ne: "st \<noteq> ML_ERROR_NONE"
          by (auto simp: open_pipeline_desc_def Let_def
                split: ml_nnfw_type_e.splits option.splits prod.splits)
        from Some Inr nn Inl have "ml_single_open single model ii oi nnfw hw env w =
            Returns (st, map_option (\<lambda>s. None) single, w)"
          by (simp add: ml_single_open_def)
        with ne show thesis by (rule early)
      next
        case d: (Inr desc)
        from Some Inr nn d have "ml_single_open single model ii oi nnfw hw env w =
            open_construct env desc ii oi w"
          by (simp add: ml_single_open_def)
        with Some show thesis by (intro built [of desc]) simp_all
      qed
    qed
  qed
qed

text \<open>
  C5.  \<^verbatim>\<open>ml_single_open\<close> always returns, and when its status is not \<^verbatim>\<open>ML_ERROR_NONE\<close>
  the caller's handle slot holds NULL (there is no slot when the pointer to it is
  NULL) and the process holds exactly the pipelines, element references and handle
  structs it held before: what was built has been released by \<^verbatim>\<open>ml_single_close\<close>.
\<close>

theorem open_atomic_on_failure:
  "\<exists>st slot w'.
     ml_single_open single model input_info output_info nnfw hw env w = Returns (st, slot, w') \<and>
     (st \<noteq> ML_ERROR_NONE \<longrightarrow>
        slot = map_option (\<lambda>s. None) single \<and>
        live_pipelines w' = live_pipelines w \<and>
        element_refs w' = element_refs w \<and>
        live_handles w' = live_handles w)"
proof (cases rule: open_returns_cases [of single model input_info output_info nnfw hw env w])
  case (early st)
  then show ?thesis by simp
next
  case (built desc)
  then obtain s where s: "single = Some s" by auto
  show ?thesis
  proof (rule open_construct_result [of env desc input_info output_info w])
    fix s0 p st h' w2
    assume "open_construct env desc input_info output_info w =
      (if s0 \<noteq> ML_ERROR_NONE
         then Returns (s0, Some None, w\<lparr>constructed := constructed w @ [desc]\<rparr>)
       else if st \<noteq> ML_ERROR_NONE
         then Returns (st, Some None, w\<lparr>constructed := constructed w @ [desc]\<rparr>)
       else Returns (ML_ERROR_NONE, Some (Some h'), w2))"
    with built(2) s show ?thesis by simp
  qed
qed

lemma ex_from_filter: "ml_single_get_tensors_info_from_filter ex_pipeline b = ex_info4"
  by (simp add: ml_single_get_tensors_info_from_filter_def ex_pipeline_def ex_props4_def
      ex_info4_def ML_TENSOR_SIZE_LIMIT_def Let_def eval_nat_numeral upt_rec)

lemma ex_info4_valid: "ml_tensors_info_validate ex_info4 = (ML_ERROR_NONE, True)"
  by (simp add: ml_tensors_info_validate_def ml_tensor_info_validate_def
      ex_info4_def ML_TENSOR_SIZE_LIMIT_def ML_TENSOR_RANK_LIMIT_def)

lemma from_filter_update [simp]:
  "ml_single_get_tensors_info_from_filter (p\<lparr>src_caps := a\<rparr>) b =
     ml_single_get_tensors_info_from_filter p b"
  "ml_single_get_tensors_info_from_filter (p\<lparr>sink_caps := a\<rparr>) b =
     ml_single_get_tensors_info_from_filter p b"
  "ml_single_get_tensors_info_from_filter (p\<lparr>sink_max_buffers := n\<rparr>) b =
     ml_single_get_tensors_info_from_filter p b"
  "ml_single_get_tensors_info_from_filter (p\<lparr>sink_drop := c\<rparr>) b =
     ml_single_get_tensors_info_from_filter p b"
  "ml_single_get_tensors_info_from_filter (p\<lparr>playing := c\<rparr>) b =
     ml_single_get_tensors_info_from_filter p b"
  "ml_single_get_tensors_info_from_filter (p\<lparr>in_flight := fs\<rparr>) b =
     ml_single_get_tensors_info_from_filter p b"
  "ml_single_get_tensors_info_from_filter (p\<lparr>sink_queue := q\<rparr>) b =
     ml_single_get_tensors_info_from_filter p b"
  by (simp_all add: ml_single_get_tensors_info_from_filter_def)

lemma ex_configure:
  "open_configure ex_env None None (fst (open_allocate ex_pipeline w)) = (ML_ERROR_NONE, ex_single)"
  by (simp add: open_configure_def open_set_input_def open_set_output_def open_allocate_def
      ex_from_filter ex_info4_valid Let_def)
     (simp add: ex_env_def ex_single_def ex_pipeline_def)


lemma ex_resolve_so: "open_resolve ex_env ''libpass.so'' ML_NNFW_TYPE_ANY 0 = Inr ML_NNFW_TYPE_CUSTOM_FILTER"
proof -
  have "determine_nnfw ''libpass.so'' ML_NNFW_TYPE_ANY = (ML_NNFW_TYPE_CUSTOM_FILTER, ML_ERROR_NONE)"
    by (simp add: determine_nnfw_def g_ascii_strdown_def g_ascii_tolower_def g_str_has_suffix_def
                NNSTREAMER_SO_FILE_EXTENSION_def)
  then show ?thesis by (simp add: open_resolve_def ex_env_def)
qed

lemma ex_open_construct:
  "open_construct ex_env desc None None ex_world =
     Returns (ML_ERROR_NONE, Some (Some ex_single),
       \<lparr>constructed = [desc], live_pipelines = 1, element_refs = 3, live_handles = 1\<rparr>)"
proof -
  have c: "ml_pipeline_construct ex_env desc = (ML_ERROR_NONE, ex_pipeline)"
    by (simp add: ex_env_def)
  have a: "open_allocate ex_pipeline
             (ex_world\<lparr>constructed := constructed ex_world @ [desc],
                live_pipelines := live_pipelines (ex_world\<lparr>constructed := constructed ex_world @ [desc]\<rparr>) + 1\<rparr>) =
           (fst (open_allocate ex_pipeline ex_world),
            \<lparr>constructed = [desc], live_pipelines = 1, element_refs = 3, live_handles = 1\<rparr>)"
    by (simp add: open_allocate_def ex_world_def)
  show ?thesis
    unfolding open_construct_def c Let_def
    by (simp only: a prod.case ex_configure) simp
qed

lemma ex_open:
  "ml_single_open (Some None) (Some ''libpass.so'') None None ML_NNFW_TYPE_ANY 0 ex_env ex_world =
     Returns (ML_ERROR_NONE, Some (Some ex_single),
       \<lparr>constructed =
          [''appsrc name=srcx ! tensor_filter name=filterx framework=custom model=libpass.so ! appsink name=sinkx sync=false''],
        live_pipelines = 1, element_refs = 3, live_handles = 1\<rparr>)"
proof -
  have p: "open_check_params ex_env (Some ''libpass.so'') None None = Inr ''libpass.so''"
    by (simp add: open_check_params_def open_info_invalid_def ex_env_def)
  have d: "open_pipeline_desc ex_env ML_NNFW_TYPE_CUSTOM_FILTER ''libpass.so'' None None =
      Inr ''appsrc name=srcx ! tensor_filter name=filterx framework=custom model=libpass.so ! appsink name=sinkx sync=false''"
    by (simp add: open_pipeline_desc_def)
  show ?thesis
    by (simp add: ml_single_open_def p ex_resolve_so d ex_open_construct)
qed

lemma open_success_handle:
  assumes "ml_single_open single model ii oi nnfw hw env w = Returns (ML_ERROR_NONE, Some (Some h), w')"
  obtains desc p where
    "ml_pipeline_construct env desc = (ML_ERROR_NONE, p)"
    "open_configure env ii oi (fst (open_allocate p w)) = (ML_ERROR_NONE, h)"
proof (cases rule: open_returns_cases [of single model ii oi nnfw hw env w])
  case (early st)
  with assms show ?thesis by simp
next
  case (built desc)
  show ?thesis
  proof (rule open_construct_result [of env desc ii oi w])
    fix s0 p st h' w2
    assume c: "ml_pipeline_construct env desc = (s0, p)"
      and k: "open_configure env ii oi (fst (open_allocate p w)) = (st, h')"
      and r: "open_construct env desc ii oi w =
      (if s0 \<noteq> ML_ERROR_NONE
         then Returns (s0, Some None, w\<lparr>constructed := constructed w @ [desc]\<rparr>)
       else if st \<noteq> ML_ERROR_NONE
         then Returns (st, Some None, w\<lparr>constructed := constructed w @ [desc]\<rparr>)
       else Returns (ML_ERROR_NONE, Some (Some h'), w2))"
    from assms built(2) r have "s0 = ML_ERROR_NONE \<and> st = ML_ERROR_NONE \<and> h' = h"
      by (auto split: if_splits)
    with c k show ?thesis by (intro that [of desc p]) simp_all
  qed
qed

lemma open_success_fields:
  assumes "ml_single_open single model ii oi nnfw hw env w = Returns (ML_ERROR_NONE, Some (Some h), w')"
  shows "timeout h = SINGLE_DEFAULT_TIMEOUT \<and> single_live h \<and> \<not> clear_previous_buffer h"
proof -
  from assms obtain desc p where
    k: "open_configure env ii oi (fst (open_allocate p w)) = (ML_ERROR_NONE, h)"
    by (rule open_success_handle)
  from open_configure_fields [OF k] show ?thesis
    by (simp add: open_allocate_fields single_live_def)
qed

lemma invoke_clear_previous_timeout:
  "invoke_clear_previous (h\<lparr>timeout := d\<rparr>) =
     map_option (\<lambda>g. g\<lparr>timeout := d\<rparr>) (invoke_clear_previous h)"
  by (simp add: invoke_clear_previous_def split: option.splits)

text \<open>
  C7, as amended.  A handle made by \<^verbatim>\<open>ml_single_open\<close> has timeout 3000.
  \<^verbatim>\<open>ml_single_set_timeout\<close> with 0 returns invalid-parameter and leaves the struct as it
  is.  With a duration other than 0 on a live handle it succeeds and stores the
  duration, the only change.  The wait of a following \<^verbatim>\<open>ml_single_invoke\<close> for its
  output frame is then bounded by that many milliseconds: on a handle whose pipeline
  holds no frame but the stale one, after the cleanup and an accepted push, the call
  times out exactly when the inference takes longer.  The
  cleanup pull of a call on a flagged handle is the same whatever the timeout, and while
  it gets nothing the call does not return.  While another call holds the handle's
  mutex, \<^verbatim>\<open>ml_single_set_timeout\<close> does not get to store anything, and
  \<^verbatim>\<open>ml_single_invoke\<close> itself never changes the timeout: a call in progress keeps its
  bound.
\<close>

theorem timeout_configuration:
  "(ml_single_open single model input_info output_info nnfw hw env w =
        Returns (ML_ERROR_NONE, Some (Some h0), w') \<longrightarrow>
      timeout h0 = 3000) \<and>
   ml_single_set_timeout (Some h) 0 = Returns (ML_ERROR_INVALID_PARAMETER, Some h) \<and>
   (single_live h \<and> d \<noteq> 0 \<longrightarrow>
      ml_single_set_timeout (Some h) d = Returns (ML_ERROR_NONE, Some (h\<lparr>timeout := d\<rparr>)) \<and>
      (\<forall>p. invoke_pull_result (h\<lparr>timeout := d\<rparr>) p =
             Some (gst_app_sink_try_pull_sample p (1000000 * unat d))) \<and>
      invoke_clear_previous (h\<lparr>timeout := d\<rparr>) =
        map_option (\<lambda>g. g\<lparr>timeout := d\<rparr>) (invoke_clear_previous h) \<and>
      (invoke_validate_input h x = ML_ERROR_NONE \<and> clear_previous_buffer h \<and>
       gst_app_sink_pull_sample (pipe h) = None \<longrightarrow>
         ml_single_invoke (Some (h\<lparr>timeout := d\<rparr>)) (Some x) (Some slot) e = Blocks) \<and>
      (single_inv h \<and> invoke_validate_input h x = ML_ERROR_NONE \<and> push_ret e = GST_FLOW_OK \<longrightarrow>
         ((\<exists>out after. ml_single_invoke (Some (h\<lparr>timeout := d\<rparr>)) (Some x) (Some slot) e =
              Returns (ML_ERROR_TIMED_OUT, out, after)) \<longleftrightarrow>
          \<not> (clear_previous_buffer h \<and> gst_app_sink_pull_sample (pipe h) = None) \<and>
          1000000 * unat d < latency e))) \<and>
   (magic h = ML_SINGLE_MAGIC \<and> lock h \<and> d \<noteq> 0 \<longrightarrow> ml_single_set_timeout (Some h) d = Blocks) \<and>
   (\<forall>input output st out h'.
      ml_single_invoke (Some h) input output e = Returns (st, out, Some h') \<longrightarrow>
      timeout h' = timeout h)"
proof -
  have a: "ml_single_open single model input_info output_info nnfw hw env w =
        Returns (ML_ERROR_NONE, Some (Some h0), w') \<longrightarrow> timeout h0 = 3000"
    using open_success_fields [of single model input_info output_info nnfw hw env w h0 w']
    by (simp add: SINGLE_DEFAULT_TIMEOUT_def)
  have b: "ml_single_set_timeout (Some h) 0 = Returns (ML_ERROR_INVALID_PARAMETER, Some h)"
    by (simp add: ml_single_set_timeout_def ML_SINGLE_SUPPORT_TIMEOUT_def)
  have c1: "ml_single_set_timeout (Some h) d = Returns (ML_ERROR_NONE, Some (h\<lparr>timeout := d\<rparr>))"
    if "single_live h" "d \<noteq> 0"
    using that by (simp add: ml_single_set_timeout_def ML_SINGLE_SUPPORT_TIMEOUT_def single_live_def)
  have w: "wait_ns (h\<lparr>timeout := d\<rparr>) = 1000000 * unat d"
    by (simp add: wait_ns_eq)
  have c2: "\<forall>p. invoke_pull_result (h\<lparr>timeout := d\<rparr>) p =
             Some (gst_app_sink_try_pull_sample p (1000000 * unat d))"
    using w by (simp add: invoke_pull_result_def ML_SINGLE_SUPPORT_TIMEOUT_def wait_ns_def)
  note c3 = invoke_clear_previous_timeout [where h = h and d = d]
  have v': "invoke_validate_input (h\<lparr>timeout := d\<rparr>) x = invoke_validate_input h x"
    by (simp add: invoke_validate_input_def)
  have c4: "ml_single_invoke (Some (h\<lparr>timeout := d\<rparr>)) (Some x) (Some slot) e = Blocks"
    if l: "single_live h" and v: "invoke_validate_input h x = ML_ERROR_NONE"
      and f: "clear_previous_buffer h" and p: "gst_app_sink_pull_sample (pipe h) = None"
  proof -
    have l': "single_live (h\<lparr>timeout := d\<rparr>)" using l by (simp add: single_live_def)
    from l' show ?thesis
      by (rule invoke_cleanup_blocks) (simp_all add: f p v v')
  qed
  have c5: "(\<exists>out after. ml_single_invoke (Some (h\<lparr>timeout := d\<rparr>)) (Some x) (Some slot) e =
              Returns (ML_ERROR_TIMED_OUT, out, after)) \<longleftrightarrow>
          \<not> (clear_previous_buffer h \<and> gst_app_sink_pull_sample (pipe h) = None) \<and>
          1000000 * unat d < latency e"
    if l: "single_live h" and i: "single_inv h"
      and v: "invoke_validate_input h x = ML_ERROR_NONE" and pr: "push_ret e = GST_FLOW_OK"
  proof -
    have l': "single_live (h\<lparr>timeout := d\<rparr>)" using l by (simp add: single_live_def)
    have "single_inv (h\<lparr>timeout := d\<rparr>) = single_inv h" by (simp add: single_inv_def)
    with i have i': "single_inv (h\<lparr>timeout := d\<rparr>)" by simp
    have v2: "invoke_validate_input (h\<lparr>timeout := d\<rparr>) x = ML_ERROR_NONE" using v v' by simp
    from invoke_times_out_iff [OF l' i' v2 pr, of slot] show ?thesis by simp
  qed
  have c: "single_live h \<and> d \<noteq> 0 \<longrightarrow>
      ml_single_set_timeout (Some h) d = Returns (ML_ERROR_NONE, Some (h\<lparr>timeout := d\<rparr>)) \<and>
      (\<forall>p. invoke_pull_result (h\<lparr>timeout := d\<rparr>) p =
             Some (gst_app_sink_try_pull_sample p (1000000 * unat d))) \<and>
      invoke_clear_previous (h\<lparr>timeout := d\<rparr>) =
        map_option (\<lambda>g. g\<lparr>timeout := d\<rparr>) (invoke_clear_previous h) \<and>
      (invoke_validate_input h x = ML_ERROR_NONE \<and> clear_previous_buffer h \<and>
       gst_app_sink_pull_sample (pipe h) = None \<longrightarrow>
         ml_single_invoke (Some (h\<lparr>timeout := d\<rparr>)) (Some x) (Some slot) e = Blocks) \<and>
      (single_inv h \<and> invoke_validate_input h x = ML_ERROR_NONE \<and> push_ret e = GST_FLOW_OK \<longrightarrow>
         ((\<exists>out after. ml_single_invoke (Some (h\<lparr>timeout := d\<rparr>)) (Some x) (Some slot) e =
              Returns (ML_ERROR_TIMED_OUT, out, after)) \<longleftrightarrow>
          \<not> (clear_previous_buffer h \<and> gst_app_sink_pull_sample (pipe h) = None) \<and>
          1000000 * unat d < latency e))"
  proof (intro impI, elim conjE, intro conjI impI)
    assume l: "single_live h" and nz: "d \<noteq> 0"
    show "ml_single_set_timeout (Some h) d = Returns (ML_ERROR_NONE, Some (h\<lparr>timeout := d\<rparr>))"
      using l nz by (rule c1)
    show "\<forall>p. invoke_pull_result (h\<lparr>timeout := d\<rparr>) p =
             Some (gst_app_sink_try_pull_sample p (1000000 * unat d))" by (rule c2)
    show "invoke_clear_previous (h\<lparr>timeout := d\<rparr>) =
        map_option (\<lambda>g. g\<lparr>timeout := d\<rparr>) (invoke_clear_previous h)" by (rule c3)
    show "ml_single_invoke (Some (h\<lparr>timeout := d\<rparr>)) (Some x) (Some slot) e = Blocks"
      if "invoke_validate_input h x = ML_ERROR_NONE \<and> clear_previous_buffer h \<and>
          gst_app_sink_pull_sample (pipe h) = None"
      using that by (elim conjE) (rule c4 [OF l])
    show "(\<exists>out after. ml_single_invoke (Some (h\<lparr>timeout := d\<rparr>)) (Some x) (Some slot) e =
              Returns (ML_ERROR_TIMED_OUT, out, after)) \<longleftrightarrow>
          \<not> (clear_previous_buffer h \<and> gst_app_sink_pull_sample (pipe h) = None) \<and>
          1000000 * unat d < latency e"
      if "single_inv h \<and> invoke_validate_input h x = ML_ERROR_NONE \<and> push_ret e = GST_FLOW_OK"
      using that by (elim conjE) (rule c5 [OF l])
  qed
  have d1: "magic h = ML_SINGLE_MAGIC \<and> lock h \<and> d \<noteq> 0 \<longrightarrow> ml_single_set_timeout (Some h) d = Blocks"
    by (simp add: ml_single_set_timeout_def ML_SINGLE_SUPPORT_TIMEOUT_def)
  have e1: "\<forall>input output st out h'.
      ml_single_invoke (Some h) input output e = Returns (st, out, Some h') \<longrightarrow>
      timeout h' = timeout h"
    using invoke_timeout_unchanged by blast
  show ?thesis by (intro conjI a b c d1 e1)
qed


lemma open_pipeline_desc_tensorflow:
  assumes "input_info = None \<or> output_info = None"
  shows "open_pipeline_desc env ML_NNFW_TYPE_TENSORFLOW path input_info output_info =
           Inl ML_ERROR_INVALID_PARAMETER"
  using assms by (auto simp: open_pipeline_desc_def split: option.splits)

text \<open>
  C9.  When the framework resolves to tensorflow and the input or the output
  descriptor is missing, \<^verbatim>\<open>ml_single_open\<close> returns an error with the caller's slot
  NULL and the world untouched: no description was handed to
  \<^verbatim>\<open>ml_pipeline_construct\<close> and no struct was allocated.  The error is
  invalid-parameter once the parameter checks and the availability check have passed.
\<close>

theorem tensorflow_requires_descriptors:
  assumes "determine_nnfw path nnfw = (ML_NNFW_TYPE_TENSORFLOW, ML_ERROR_NONE)"
      and "input_info = None \<or> output_info = None"
  shows "(\<exists>st. st \<noteq> ML_ERROR_NONE \<and>
            ml_single_open (Some slot) (Some path) input_info output_info nnfw hw env w =
              Returns (st, Some None, w)) \<and>
         (open_check_params env (Some path) input_info output_info = Inr path \<and>
          ml_check_nnfw_availability env ML_NNFW_TYPE_TENSORFLOW hw = (ML_ERROR_NONE, True) \<longrightarrow>
            ml_single_open (Some slot) (Some path) input_info output_info nnfw hw env w =
              Returns (ML_ERROR_INVALID_PARAMETER, Some None, w))"
proof -
  note d = open_pipeline_desc_tensorflow [OF assms(2), of env path]
  have second: "ml_single_open (Some slot) (Some path) input_info output_info nnfw hw env w =
      Returns (ML_ERROR_INVALID_PARAMETER, Some None, w)"
    if "open_check_params env (Some path) input_info output_info = Inr path"
      and "ml_check_nnfw_availability env ML_NNFW_TYPE_TENSORFLOW hw = (ML_ERROR_NONE, True)"
    using that assms(1) d by (simp add: ml_single_open_def open_resolve_def)
  have first: "\<exists>st. st \<noteq> ML_ERROR_NONE \<and>
            ml_single_open (Some slot) (Some path) input_info output_info nnfw hw env w =
              Returns (st, Some None, w)"
  proof (cases "open_check_params env (Some path) input_info output_info")
    case (Inl st)
    then have "st \<noteq> ML_ERROR_NONE"
      by (auto simp: open_check_params_def split: if_splits option.splits)
    with Inl show ?thesis by (simp add: ml_single_open_def)
  next
    case (Inr path')
    then have p: "path' = path"
      by (auto simp: open_check_params_def split: if_splits)
    obtain st2 av where av: "ml_check_nnfw_availability env ML_NNFW_TYPE_TENSORFLOW hw = (st2, av)"
      by (cases "ml_check_nnfw_availability env ML_NNFW_TYPE_TENSORFLOW hw")
    show ?thesis
    proof (cases "st2 = ML_ERROR_NONE \<and> av")
      case True
      with second Inr p av show ?thesis by auto
    next
      case False
      with Inr p av assms(1) have "\<exists>st. st \<noteq> ML_ERROR_NONE \<and>
          open_resolve env path nnfw hw = Inl st"
        by (auto simp: open_resolve_def)
      with Inr p show ?thesis by (auto simp: ml_single_open_def)
    qed
  qed
  from first second show ?thesis by blast
qed

lemma ex_determine_pb:
  "determine_nnfw ''graph.pb'' ML_NNFW_TYPE_ANY = (ML_NNFW_TYPE_TENSORFLOW, ML_ERROR_NONE)"
  by (simp add: determine_nnfw_def g_ascii_strdown_def g_ascii_tolower_def g_str_has_suffix_def)

theorem tensorflow_requires_descriptors_witness:
  "determine_nnfw ''graph.pb'' ML_NNFW_TYPE_ANY = (ML_NNFW_TYPE_TENSORFLOW, ML_ERROR_NONE) \<and>
   open_check_params ex_env (Some ''graph.pb'') (Some ex_info4) None = Inr ''graph.pb'' \<and>
   ml_check_nnfw_availability ex_env ML_NNFW_TYPE_TENSORFLOW 0 = (ML_ERROR_NONE, True) \<and>
   ml_single_open (Some None) (Some ''graph.pb'') (Some ex_info4) None ML_NNFW_TYPE_ANY 0 ex_env ex_world =
     Returns (ML_ERROR_INVALID_PARAMETER, Some None, ex_world)"
proof -
  have n: "Some ex_info4 = None \<or> (None :: ml_tensors_info_s option) = None" by simp
  have c: "open_check_params ex_env (Some ''graph.pb'') (Some ex_info4) None = Inr ''graph.pb''"
    by (simp add: open_check_params_def open_info_invalid_def ex_info4_valid ex_env_def)
  have a: "ml_check_nnfw_availability ex_env ML_NNFW_TYPE_TENSORFLOW 0 = (ML_ERROR_NONE, True)"
    by (simp add: ex_env_def)
  from tensorflow_requires_descriptors [OF ex_determine_pb n, of None 0 ex_env ex_world] c a
  have "ml_single_open (Some None) (Some ''graph.pb'') (Some ex_info4) None ML_NNFW_TYPE_ANY 0
          ex_env ex_world = Returns (ML_ERROR_INVALID_PARAMETER, Some None, ex_world)"
    by blast
  with ex_determine_pb c a show ?thesis by simp
qed

lemma ex_determine_so:
  "determine_nnfw ''libpass.so'' ML_NNFW_TYPE_ANY = (ML_NNFW_TYPE_CUSTOM_FILTER, ML_ERROR_NONE)"
  by (simp add: determine_nnfw_def g_ascii_strdown_def g_ascii_tolower_def g_str_has_suffix_def
                NNSTREAMER_SO_FILE_EXTENSION_def)

lemma ex_configure_start_fails:
  "fst (open_configure ex_env_start_fails None None (fst (open_allocate ex_pipeline w))) =
     ML_ERROR_STREAMS_PIPE"
  by (simp add: open_configure_def open_set_input_def open_set_output_def open_allocate_def
      ex_from_filter ex_info4_valid Let_def)
     (simp add: ex_env_start_fails_def ex_env_def)

lemma ex_open_start_fails:
  "ml_single_open (Some None) (Some ''libpass.so'') None None ML_NNFW_TYPE_ANY 0
     ex_env_start_fails ex_world =
   Returns (ML_ERROR_STREAMS_PIPE, Some None,
     ex_world\<lparr>constructed :=
       [''appsrc name=srcx ! tensor_filter name=filterx framework=custom model=libpass.so ! appsink name=sinkx sync=false'']\<rparr>)"
proof -
  let ?desc = "''appsrc name=srcx ! tensor_filter name=filterx framework=custom model=libpass.so ! appsink name=sinkx sync=false''"
  have p: "open_check_params ex_env_start_fails (Some ''libpass.so'') None None = Inr ''libpass.so''"
    by (simp add: open_check_params_def open_info_invalid_def ex_env_start_fails_def ex_env_def)
  have r: "open_resolve ex_env_start_fails ''libpass.so'' ML_NNFW_TYPE_ANY 0 =
      Inr ML_NNFW_TYPE_CUSTOM_FILTER"
    by (simp add: open_resolve_def ex_determine_so ex_env_start_fails_def ex_env_def)
  have d: "open_pipeline_desc ex_env_start_fails ML_NNFW_TYPE_CUSTOM_FILTER ''libpass.so'' None None =
      Inr ?desc"
    by (simp add: open_pipeline_desc_def)
  have o: "ml_single_open (Some None) (Some ''libpass.so'') None None ML_NNFW_TYPE_ANY 0
     ex_env_start_fails ex_world = open_construct ex_env_start_fails ?desc None None ex_world"
    by (simp add: ml_single_open_def p r d)
  have c: "ml_pipeline_construct ex_env_start_fails ?desc = (ML_ERROR_NONE, ex_pipeline)"
    by (simp add: ex_env_start_fails_def ex_env_def)
  show ?thesis
  proof (rule open_construct_result [of ex_env_start_fails ?desc None None ex_world])
    fix s0 p st h' w2
    assume c': "ml_pipeline_construct ex_env_start_fails ?desc = (s0, p)"
      and k: "open_configure ex_env_start_fails None None (fst (open_allocate p ex_world)) = (st, h')"
      and res: "open_construct ex_env_start_fails ?desc None None ex_world =
        (if s0 \<noteq> ML_ERROR_NONE
           then Returns (s0, Some None, ex_world\<lparr>constructed := constructed ex_world @ [?desc]\<rparr>)
         else if st \<noteq> ML_ERROR_NONE
           then Returns (st, Some None, ex_world\<lparr>constructed := constructed ex_world @ [?desc]\<rparr>)
         else Returns (ML_ERROR_NONE, Some (Some h'), w2))"
    from c c' have s0: "s0 = ML_ERROR_NONE" and pp: "p = ex_pipeline" by simp_all
    from k pp ex_configure_start_fails [of ex_world] have st: "st = ML_ERROR_STREAMS_PIPE" by simp
    from o res s0 st show ?thesis by (simp add: ex_world_def)
  qed
qed

theorem open_atomic_on_failure_witness:
  "ml_single_open (Some None) (Some ''libpass.so'') None None ML_NNFW_TYPE_ANY 0
     ex_env_start_fails ex_world =
   Returns (ML_ERROR_STREAMS_PIPE, Some None,
     ex_world\<lparr>constructed :=
       [''appsrc name=srcx ! tensor_filter name=filterx framework=custom model=libpass.so ! appsink name=sinkx sync=false'']\<rparr>) \<and>
   ML_ERROR_STREAMS_PIPE \<noteq> ML_ERROR_NONE \<and>
   live_pipelines
     (ex_world\<lparr>constructed :=
       [''appsrc name=srcx ! tensor_filter name=filterx framework=custom model=libpass.so ! appsink name=sinkx sync=false'']\<rparr>) =
     live_pipelines ex_world"
  using open_atomic_on_failure [of "Some None" "Some ''libpass.so''" None None ML_NNFW_TYPE_ANY 0
      ex_env_start_fails ex_world] ex_open_start_fails
  by auto

lemma ex_set_timeout_live:
  "single_live ex_single \<and> (6000 :: 32 word) \<noteq> 0"
  "single_live ex_single \<and> (4000 :: 32 word) \<noteq> 0"
  "single_live ex_lost \<and> (6000 :: 32 word) \<noteq> 0"
  using ex_single_live ex_lost_blocked by simp_all

lemma ex_slow_timing:
  "push_ret ex_slow = GST_FLOW_OK"
  "\<not> 1000000 * unat (6000 :: 32 word) < latency ex_slow"
  "1000000 * unat (4000 :: 32 word) < latency ex_slow"
  by (simp_all add: ex_slow_def)

theorem timeout_configuration_witness:
  "ml_single_open (Some None) (Some ''libpass.so'') None None ML_NNFW_TYPE_ANY 0 ex_env ex_world =
     Returns (ML_ERROR_NONE, Some (Some ex_single),
       \<lparr>constructed =
          [''appsrc name=srcx ! tensor_filter name=filterx framework=custom model=libpass.so ! appsink name=sinkx sync=false''],
        live_pipelines = 1, element_refs = 3, live_handles = 1\<rparr>) \<and>
   timeout ex_single = 3000 \<and>
   single_live ex_single \<and> (6000 :: 32 word) \<noteq> 0 \<and>
   ml_single_set_timeout (Some ex_single) 6000 =
     Returns (ML_ERROR_NONE, Some (ex_single\<lparr>timeout := 6000\<rparr>)) \<and>
   single_inv ex_single \<and>
   invoke_validate_input ex_single (ex_data [1, 2, 3, 4]) = ML_ERROR_NONE \<and>
   push_ret ex_slow = GST_FLOW_OK \<and> \<not> clear_previous_buffer ex_single \<and>
   latency ex_slow = 5000000000 \<and>
   \<not> (\<exists>out after. ml_single_invoke (Some (ex_single\<lparr>timeout := 6000\<rparr>))
          (Some (ex_data [1, 2, 3, 4])) (Some None) ex_slow =
        Returns (ML_ERROR_TIMED_OUT, out, after)) \<and>
   (4000 :: 32 word) \<noteq> 0 \<and>
   (\<exists>out after. ml_single_invoke (Some (ex_single\<lparr>timeout := 4000\<rparr>))
          (Some (ex_data [1, 2, 3, 4])) (Some None) ex_slow =
        Returns (ML_ERROR_TIMED_OUT, out, after)) \<and>
   single_live ex_lost \<and>
   invoke_validate_input ex_lost (ex_data [9, 8, 7, 6]) = ML_ERROR_NONE \<and>
   clear_previous_buffer ex_lost \<and> gst_app_sink_pull_sample (pipe ex_lost) = None \<and>
   ml_single_invoke (Some (ex_lost\<lparr>timeout := 6000\<rparr>)) (Some (ex_data [9, 8, 7, 6])) (Some None)
       ex_fast = Blocks \<and>
   magic (ex_single\<lparr>lock := True\<rparr>) = ML_SINGLE_MAGIC \<and> lock (ex_single\<lparr>lock := True\<rparr>) \<and>
   ml_single_set_timeout (Some (ex_single\<lparr>lock := True\<rparr>)) 6000 = Blocks \<and>
   ml_single_invoke (Some ex_single) (Some (ex_data [1, 2, 3, 4])) (Some None) ex_slow =
     Returns (ML_ERROR_TIMED_OUT, Some None, Some ex_stale) \<and>
   timeout ex_stale = timeout ex_single"
proof -
  note t6 = timeout_configuration [where single = "Some None" and model = "Some ''libpass.so''"
      and input_info = None and output_info = None and nnfw = ML_NNFW_TYPE_ANY and hw = 0
      and env = ex_env and w = ex_world and ?h0.0 = ex_single and h = ex_single and d = 6000
      and x = "ex_data [1, 2, 3, 4]" and e = ex_slow and slot = None]
  note t4 = timeout_configuration [where h = ex_single and d = 4000
      and x = "ex_data [1, 2, 3, 4]" and e = ex_slow and slot = None]
  note tl = timeout_configuration [where h = ex_lost and d = 6000
      and x = "ex_data [9, 8, 7, 6]" and e = ex_fast and slot = None]
  note tk = timeout_configuration [where h = "ex_single\<lparr>lock := True\<rparr>" and d = 6000]
  have lat: "latency ex_slow = 5000000000" by (simp add: ex_slow_def)
  have lk: "magic (ex_single\<lparr>lock := True\<rparr>) = ML_SINGLE_MAGIC" "lock (ex_single\<lparr>lock := True\<rparr>)"
    by (simp_all add: ex_single_def)
  have nz: "(6000 :: 32 word) \<noteq> 0" "(4000 :: 32 word) \<noteq> 0" by simp_all
  from t6 [THEN conjunct1, rule_format, OF ex_open]
  have a: "timeout ex_single = 3000" .
  note s6 = t6 [THEN conjunct2, THEN conjunct2, THEN conjunct1, rule_format, OF ex_set_timeout_live(1)]
  note s4 = t4 [THEN conjunct2, THEN conjunct2, THEN conjunct1, rule_format, OF ex_set_timeout_live(2)]
  note sl = tl [THEN conjunct2, THEN conjunct2, THEN conjunct1, rule_format, OF ex_set_timeout_live(3)]
  from s6 have b: "ml_single_set_timeout (Some ex_single) 6000 =
     Returns (ML_ERROR_NONE, Some (ex_single\<lparr>timeout := 6000\<rparr>))" by (rule conjunct1)
  have pre: "single_inv ex_single \<and> invoke_validate_input ex_single (ex_data [1, 2, 3, 4]) = ML_ERROR_NONE \<and>
             push_ret ex_slow = GST_FLOW_OK"
    using ex_single_inv ex_validate ex_slow_timing(1) by simp
  from s6 [THEN conjunct2, THEN conjunct2, THEN conjunct2, THEN conjunct2, rule_format, OF pre]
       ex_slow_timing(2)
  have c: "\<not> (\<exists>out after. ml_single_invoke (Some (ex_single\<lparr>timeout := 6000\<rparr>))
          (Some (ex_data [1, 2, 3, 4])) (Some None) ex_slow =
        Returns (ML_ERROR_TIMED_OUT, out, after))" by simp
  from s4 [THEN conjunct2, THEN conjunct2, THEN conjunct2, THEN conjunct2, rule_format, OF pre]
       ex_slow_timing(3) ex_single_flag
  have d: "\<exists>out after. ml_single_invoke (Some (ex_single\<lparr>timeout := 4000\<rparr>))
          (Some (ex_data [1, 2, 3, 4])) (Some None) ex_slow =
        Returns (ML_ERROR_TIMED_OUT, out, after)" by simp
  from ex_lost_blocked have ll: "single_live ex_lost" and lf: "clear_previous_buffer ex_lost"
    and lv: "invoke_validate_input ex_lost (ex_data [9, 8, 7, 6]) = ML_ERROR_NONE"
    and lp: "gst_app_sink_pull_sample (pipe ex_lost) = None"
    by simp_all
  have lpre: "invoke_validate_input ex_lost (ex_data [9, 8, 7, 6]) = ML_ERROR_NONE \<and>
              clear_previous_buffer ex_lost \<and> gst_app_sink_pull_sample (pipe ex_lost) = None"
    using lv lf lp by simp
  from sl [THEN conjunct2, THEN conjunct2, THEN conjunct2, THEN conjunct1, rule_format, OF lpre]
  have e: "ml_single_invoke (Some (ex_lost\<lparr>timeout := 6000\<rparr>)) (Some (ex_data [9, 8, 7, 6])) (Some None)
       ex_fast = Blocks" .
  have kpre: "magic (ex_single\<lparr>lock := True\<rparr>) = ML_SINGLE_MAGIC \<and> lock (ex_single\<lparr>lock := True\<rparr>) \<and>
              (6000 :: 32 word) \<noteq> 0"
    using lk by simp
  from tk [THEN conjunct2, THEN conjunct2, THEN conjunct2, THEN conjunct1, rule_format, OF kpre]
  have f: "ml_single_set_timeout (Some (ex_single\<lparr>lock := True\<rparr>)) 6000 = Blocks" .
  from t6 [THEN conjunct2, THEN conjunct2, THEN conjunct2, THEN conjunct2, rule_format, OF ex_first_call]
  have g: "timeout ex_stale = timeout ex_single" .
  show ?thesis
    by (intro conjI ex_open a ex_single_live nz b ex_single_inv ex_validate ex_slow_timing(1)
        ex_single_flag lat c d ll lv lf lp e lk f ex_first_call g)
qed

lemma ex_stale_short_timeout:
  "single_live (ex_stale\<lparr>timeout := 1\<rparr>)" "single_inv (ex_stale\<lparr>timeout := 1\<rparr>)"
  "invoke_validate_input (ex_stale\<lparr>timeout := 1\<rparr>) (ex_data [9, 8, 7, 6]) = ML_ERROR_NONE"
  "wait_ns (ex_stale\<lparr>timeout := 1\<rparr>) = 1000000"
  by (simp_all add: wait_ns_eq single_live_def single_inv_def invoke_validate_input_def
      ex_stale_def ex_single_def ex_pipeline_def ex_data_def ex_info4_def ml_tensor_info_get_size_def)

lemma ex_stale_short_call:
  "ml_single_invoke (Some (ex_stale\<lparr>timeout := 1\<rparr>)) (Some (ex_data [9, 8, 7, 6])) (Some None)
       ex_quick =
     Returns (ML_ERROR_NONE, Some (Some (ex_data [9, 8, 7, 6])), Some (ex_single\<lparr>timeout := 1\<rparr>))"
  by (simp add: invoke_normal_form [OF ex_stale_short_timeout(1,2,3)] ex_stale_short_timeout(4)
        ex_wrap)
     (simp add: ex_quick_def drained_def ex_stale_def ex_single_def ex_pipeline_def ex_info4_def
        ex_data_def ml_tensors_data_create_def invoke_copy_result_def ml_tensor_info_get_size_def
        ML_TENSOR_SIZE_LIMIT_def gst_app_sink_pull_sample_def)

text \<open>
  C7 as stated fails: the new value does not bound the wait of every subsequent call.
  After a call has timed out and the timeout has been set to one millisecond, the stale
  frame still needs two seconds; a pull bounded by one millisecond gets nothing from
  this pipeline, yet the cleanup of the next call returns that frame, and the call goes
  on to succeed.  On the flagged handle whose pipeline holds no frame the call does not
  return at all, whatever the timeout.
\<close>

theorem timeout_bounds_cleanup_counterexample:
  "ml_single_set_timeout (Some ex_stale) 1 = Returns (ML_ERROR_NONE, Some (ex_stale\<lparr>timeout := 1\<rparr>)) \<and>
   wait_ns (ex_stale\<lparr>timeout := 1\<rparr>) = 1000000 \<and>
   in_flight (pipe (ex_stale\<lparr>timeout := 1\<rparr>)) = [(2000000000, [[1, 2, 3, 4]])] \<and>
   sink_queue (pipe (ex_stale\<lparr>timeout := 1\<rparr>)) = [] \<and>
   fst (gst_app_sink_try_pull_sample (pipe (ex_stale\<lparr>timeout := 1\<rparr>)) 1000000) = None \<and>
   invoke_clear_previous (ex_stale\<lparr>timeout := 1\<rparr>) = Some (ex_single\<lparr>timeout := 1\<rparr>) \<and>
   ml_single_invoke (Some (ex_stale\<lparr>timeout := 1\<rparr>)) (Some (ex_data [9, 8, 7, 6])) (Some None)
       ex_quick =
     Returns (ML_ERROR_NONE, Some (Some (ex_data [9, 8, 7, 6])), Some (ex_single\<lparr>timeout := 1\<rparr>)) \<and>
   ml_single_set_timeout (Some ex_lost) 1 = Returns (ML_ERROR_NONE, Some (ex_lost\<lparr>timeout := 1\<rparr>)) \<and>
   ml_single_invoke (Some (ex_lost\<lparr>timeout := 1\<rparr>)) (Some (ex_data [9, 8, 7, 6])) (Some None)
       ex_quick = Blocks"
proof -
  have a: "ml_single_set_timeout (Some ex_stale) 1 =
             Returns (ML_ERROR_NONE, Some (ex_stale\<lparr>timeout := 1\<rparr>))"
    using ex_stale_live
    by (simp add: ml_single_set_timeout_def ML_SINGLE_SUPPORT_TIMEOUT_def single_live_def)
  have b: "in_flight (pipe (ex_stale\<lparr>timeout := 1\<rparr>)) = [(2000000000, [[1, 2, 3, 4]])]"
    "sink_queue (pipe (ex_stale\<lparr>timeout := 1\<rparr>)) = []"
    by (simp_all add: ex_stale_def ex_single_def ex_pipeline_def)
  have c: "fst (gst_app_sink_try_pull_sample (pipe (ex_stale\<lparr>timeout := 1\<rparr>)) 1000000) = None"
    by (simp add: gst_app_sink_try_pull_sample_def ex_stale_def ex_single_def ex_pipeline_def)
  have d: "invoke_clear_previous (ex_stale\<lparr>timeout := 1\<rparr>) = Some (ex_single\<lparr>timeout := 1\<rparr>)"
    by (simp add: invoke_clear_previous_def ML_SINGLE_SUPPORT_TIMEOUT_def
        gst_app_sink_pull_sample_def ex_stale_def ex_single_def ex_pipeline_def)
  from ex_lost_blocked have ll: "single_live ex_lost" by simp
  have e: "ml_single_set_timeout (Some ex_lost) 1 =
             Returns (ML_ERROR_NONE, Some (ex_lost\<lparr>timeout := 1\<rparr>))"
    using ll
    by (simp add: ml_single_set_timeout_def ML_SINGLE_SUPPORT_TIMEOUT_def single_live_def)
  have l1: "single_live (ex_lost\<lparr>timeout := 1\<rparr>)" "clear_previous_buffer (ex_lost\<lparr>timeout := 1\<rparr>)"
    "invoke_validate_input (ex_lost\<lparr>timeout := 1\<rparr>) (ex_data [9, 8, 7, 6]) = ML_ERROR_NONE"
    "gst_app_sink_pull_sample (pipe (ex_lost\<lparr>timeout := 1\<rparr>)) = None"
    by (simp_all add: ex_lost_def ex_single_def single_live_def invoke_validate_input_def ex_data_def
      ex_info4_def ml_tensor_info_get_size_def gst_app_sink_pull_sample_def ex_pipeline_def)
  from invoke_cleanup_blocks [OF l1]
  have f: "ml_single_invoke (Some (ex_lost\<lparr>timeout := 1\<rparr>)) (Some (ex_data [9, 8, 7, 6])) (Some None)
       ex_quick = Blocks" .
  show ?thesis
    by (intro conjI a ex_stale_short_timeout(4) b c d ex_stale_short_call e f)
qed

lemma from_filter_cong:
  assumes "filter_input_props p' = filter_input_props p"
      and "filter_output_props p' = filter_output_props p"
  shows "ml_single_get_tensors_info_from_filter p' b = ml_single_get_tensors_info_from_filter p b"
  using assms by (simp add: ml_single_get_tensors_info_from_filter_def)

lemma open_set_input_in_info:
  assumes "open_set_input ii h = (ML_ERROR_NONE, h')"
  shows "in_info h' =
           (case ii of Some D \<Rightarrow> D | None \<Rightarrow> ml_single_get_tensors_info_from_filter (pipe h) True)"
  using assms
  by (auto simp: open_set_input_def Let_def split: option.splits prod.splits if_splits)

lemma open_configure_in_info:
  assumes "open_configure env ii oi h = (ML_ERROR_NONE, h')"
  shows "in_info h' =
           (case ii of Some D \<Rightarrow> D | None \<Rightarrow> ml_single_get_tensors_info_from_filter (pipe h) True)"
proof -
  obtain s1 h1 where a: "open_set_input ii h = (s1, h1)" by (cases "open_set_input ii h")
  obtain s2 h2 where b: "open_set_output oi h1 = (s2, h2)" by (cases "open_set_output oi h1")
  from assms a b have s1: "s1 = ML_ERROR_NONE" and s2: "s2 = ML_ERROR_NONE"
    by (auto simp: open_configure_def Let_def split: if_splits)
  from assms a b s1 s2 have "in_info h' = in_info h2"
    by (auto simp: open_configure_def Let_def split: if_splits)
  also have "\<dots> = in_info h1" using open_set_output_fields [OF b] by simp
  finally show ?thesis using open_set_input_in_info [of ii h h1] a s1 by simp
qed

lemma open_success_in_info:
  assumes "ml_single_open single model ii oi nnfw hw env w = Returns (ML_ERROR_NONE, Some (Some h), w')"
  shows "in_info h =
           (case ii of Some D \<Rightarrow> D | None \<Rightarrow> ml_single_get_tensors_info_from_filter (pipe h) True)"
proof -
  from assms obtain desc p where
    k: "open_configure env ii oi (fst (open_allocate p w)) = (ML_ERROR_NONE, h)"
    by (rule open_success_handle)
  note f = open_configure_fields [OF k]
  have "ml_single_get_tensors_info_from_filter (pipe h) True =
        ml_single_get_tensors_info_from_filter (pipe (fst (open_allocate p w))) True"
    using f by (intro from_filter_cong) simp_all
  with open_configure_in_info [OF k] show ?thesis by (simp split: option.splits)
qed

lemma get_tensors_info_live:
  assumes "single_live h"
  shows "ml_single_get_tensors_info (Some h) is_input (Some slot) =
           Returns (ML_ERROR_NONE,
                    Some (Some (ml_single_get_tensors_info_from_filter (pipe h) is_input)))"
  using assms by (simp add: ml_single_get_tensors_info_def single_live_def)

text \<open>
  C6, as amended.  On a live handle \<^verbatim>\<open>ml_single_get_tensors_info\<close> returns the
  descriptor assembled at the time of the call from the properties of the filter
  element; the descriptor stored in the handle is not read.  After an open without an
  input descriptor this is the stored input descriptor, which came from the same
  properties.  After an open with an input descriptor, the stored one is the one
  supplied, and \<^verbatim>\<open>ml_single_get_input_info\<close> returns it exactly when the filter element
  reports the same.
\<close>

theorem describe_queries_filter:
  "(single_live h \<longrightarrow>
      ml_single_get_tensors_info (Some h) is_input (Some slot) =
        Returns (ML_ERROR_NONE,
                 Some (Some (ml_single_get_tensors_info_from_filter (pipe h) is_input))) \<and>
      ml_single_get_input_info (Some h) (Some slot) =
        Returns (ML_ERROR_NONE,
                 Some (Some (ml_single_get_tensors_info_from_filter (pipe h) True)))) \<and>
   (ml_single_open single model None output_info nnfw hw env w =
        Returns (ML_ERROR_NONE, Some (Some h0), w') \<longrightarrow>
      ml_single_get_input_info (Some h0) (Some slot) =
        Returns (ML_ERROR_NONE, Some (Some (in_info h0)))) \<and>
   (ml_single_open single model (Some D) output_info nnfw hw env w =
        Returns (ML_ERROR_NONE, Some (Some h0), w') \<longrightarrow>
      in_info h0 = D \<and>
      (ml_single_get_input_info (Some h0) (Some slot) = Returns (ML_ERROR_NONE, Some (Some D)) \<longleftrightarrow>
       ml_single_get_tensors_info_from_filter (pipe h0) True = D))"
proof -
  have a: "single_live h \<longrightarrow>
      ml_single_get_tensors_info (Some h) is_input (Some slot) =
        Returns (ML_ERROR_NONE,
                 Some (Some (ml_single_get_tensors_info_from_filter (pipe h) is_input))) \<and>
      ml_single_get_input_info (Some h) (Some slot) =
        Returns (ML_ERROR_NONE,
                 Some (Some (ml_single_get_tensors_info_from_filter (pipe h) True)))"
    by (simp add: get_tensors_info_live ml_single_get_input_info_def)
  have b: "ml_single_get_input_info (Some h0) (Some slot) =
        Returns (ML_ERROR_NONE, Some (Some (in_info h0)))"
    if o: "ml_single_open single model None output_info nnfw hw env w =
        Returns (ML_ERROR_NONE, Some (Some h0), w')"
  proof -
    from open_success_fields [OF o] have l: "single_live h0" by simp
    from open_success_in_info [OF o]
    have "in_info h0 = ml_single_get_tensors_info_from_filter (pipe h0) True" by simp
    with get_tensors_info_live [OF l, of True slot] show ?thesis
      by (simp add: ml_single_get_input_info_def)
  qed
  have c: "in_info h0 = D \<and>
      (ml_single_get_input_info (Some h0) (Some slot) = Returns (ML_ERROR_NONE, Some (Some D)) \<longleftrightarrow>
       ml_single_get_tensors_info_from_filter (pipe h0) True = D)"
    if o: "ml_single_open single model (Some D) output_info nnfw hw env w =
        Returns (ML_ERROR_NONE, Some (Some h0), w')"
  proof -
    from open_success_fields [OF o] have l: "single_live h0" by simp
    from open_success_in_info [OF o] have "in_info h0 = D" by simp
    with get_tensors_info_live [OF l, of True slot] show ?thesis
      by (simp add: ml_single_get_input_info_def)
  qed
  from a b c show ?thesis by blast
qed


lemma ex_mnist_valid:
  "ml_tensors_info_validate ex_info_mnist_in = (ML_ERROR_NONE, True)"
  "ml_tensors_info_validate ex_info_mnist_out = (ML_ERROR_NONE, True)"
  by (simp_all add: ml_tensors_info_validate_def ml_tensor_info_validate_def
      ex_info_mnist_in_def ex_info_mnist_out_def ML_TENSOR_SIZE_LIMIT_def ML_TENSOR_RANK_LIMIT_def)

lemma ex_determine_tflite:
  "determine_nnfw ''model.tflite'' ML_NNFW_TYPE_ANY = (ML_NNFW_TYPE_TENSORFLOW_LITE, ML_ERROR_NONE)"
  by (simp add: determine_nnfw_def g_ascii_strdown_def g_ascii_tolower_def g_str_has_suffix_def)

lemma ex_configure_classifier:
  "open_configure ex_env_classifier (Some ex_info_mnist_in) (Some ex_info_mnist_out)
     (fst (open_allocate ex_pipeline_classifier w)) = (ML_ERROR_NONE, ex_single_classifier)"
  by (simp add: open_configure_def open_set_input_def open_set_output_def open_allocate_def Let_def)
     (simp add: ex_env_classifier_def ex_env_def ex_single_classifier_def)

lemma ex_open_classifier:
  "ml_single_open (Some None) (Some ''model.tflite'') (Some ex_info_mnist_in) (Some ex_info_mnist_out)
     ML_NNFW_TYPE_ANY 0 ex_env_classifier ex_world =
   Returns (ML_ERROR_NONE, Some (Some ex_single_classifier),
     \<lparr>constructed =
        [''appsrc name=srcx ! tensor_filter name=filterx framework=tensorflow-lite model=model.tflite ! appsink name=sinkx sync=false''],
      live_pipelines = 1, element_refs = 3, live_handles = 1\<rparr>)"
proof -
  let ?desc = "''appsrc name=srcx ! tensor_filter name=filterx framework=tensorflow-lite model=model.tflite ! appsink name=sinkx sync=false''"
  have p: "open_check_params ex_env_classifier (Some ''model.tflite'') (Some ex_info_mnist_in)
      (Some ex_info_mnist_out) = Inr ''model.tflite''"
    by (simp add: open_check_params_def open_info_invalid_def ex_mnist_valid
        ex_env_classifier_def ex_env_def)
  have r: "open_resolve ex_env_classifier ''model.tflite'' ML_NNFW_TYPE_ANY 0 =
      Inr ML_NNFW_TYPE_TENSORFLOW_LITE"
    by (simp add: open_resolve_def ex_determine_tflite ex_env_classifier_def ex_env_def)
  have d: "open_pipeline_desc ex_env_classifier ML_NNFW_TYPE_TENSORFLOW_LITE ''model.tflite''
      (Some ex_info_mnist_in) (Some ex_info_mnist_out) = Inr ?desc"
    by (simp add: open_pipeline_desc_def)
  have c: "ml_pipeline_construct ex_env_classifier ?desc = (ML_ERROR_NONE, ex_pipeline_classifier)"
    by (simp add: ex_env_classifier_def ex_env_def)
  have a: "open_allocate ex_pipeline_classifier
             (ex_world\<lparr>constructed := constructed ex_world @ [?desc],
                live_pipelines := live_pipelines (ex_world\<lparr>constructed := constructed ex_world @ [?desc]\<rparr>) + 1\<rparr>) =
           (fst (open_allocate ex_pipeline_classifier ex_world),
            \<lparr>constructed = [?desc], live_pipelines = 1, element_refs = 3, live_handles = 1\<rparr>)"
    by (simp add: open_allocate_def ex_world_def)
  have oc: "open_construct ex_env_classifier ?desc (Some ex_info_mnist_in) (Some ex_info_mnist_out)
      ex_world =
     Returns (ML_ERROR_NONE, Some (Some ex_single_classifier),
       \<lparr>constructed = [?desc], live_pipelines = 1, element_refs = 3, live_handles = 1\<rparr>)"
    unfolding open_construct_def c Let_def
    by (simp only: a prod.case ex_configure_classifier) simp
  show ?thesis
    by (simp add: ml_single_open_def p r d oc)
qed

lemma ex_configure_quant:
  "open_configure ex_env_quant (Some ex_info_mnist_in) (Some ex_info_mnist_out)
     (fst (open_allocate ex_pipeline_quant w)) = (ML_ERROR_NONE, ex_single_quant)"
  by (simp add: open_configure_def open_set_input_def open_set_output_def open_allocate_def Let_def)
     (simp add: ex_env_quant_def ex_env_def ex_single_quant_def)

lemma ex_open_quant:
  "ml_single_open (Some None) (Some ''model.tflite'') (Some ex_info_mnist_in) (Some ex_info_mnist_out)
     ML_NNFW_TYPE_ANY 0 ex_env_quant ex_world =
   Returns (ML_ERROR_NONE, Some (Some ex_single_quant),
     \<lparr>constructed =
        [''appsrc name=srcx ! tensor_filter name=filterx framework=tensorflow-lite model=model.tflite ! appsink name=sinkx sync=false''],
      live_pipelines = 1, element_refs = 3, live_handles = 1\<rparr>)"
proof -
  let ?desc = "''appsrc name=srcx ! tensor_filter name=filterx framework=tensorflow-lite model=model.tflite ! appsink name=sinkx sync=false''"
  have p: "open_check_params ex_env_quant (Some ''model.tflite'') (Some ex_info_mnist_in)
      (Some ex_info_mnist_out) = Inr ''model.tflite''"
    by (simp add: open_check_params_def open_info_invalid_def ex_mnist_valid
        ex_env_quant_def ex_env_def)
  have r: "open_resolve ex_env_quant ''model.tflite'' ML_NNFW_TYPE_ANY 0 =
      Inr ML_NNFW_TYPE_TENSORFLOW_LITE"
    by (simp add: open_resolve_def ex_determine_tflite ex_env_quant_def ex_env_def)
  have d: "open_pipeline_desc ex_env_quant ML_NNFW_TYPE_TENSORFLOW_LITE ''model.tflite''
      (Some ex_info_mnist_in) (Some ex_info_mnist_out) = Inr ?desc"
    by (simp add: open_pipeline_desc_def)
  have c: "ml_pipeline_construct ex_env_quant ?desc = (ML_ERROR_NONE, ex_pipeline_quant)"
    by (simp add: ex_env_quant_def ex_env_def)
  have a: "open_allocate ex_pipeline_quant
             (ex_world\<lparr>constructed := constructed ex_world @ [?desc],
                live_pipelines := live_pipelines (ex_world\<lparr>constructed := constructed ex_world @ [?desc]\<rparr>) + 1\<rparr>) =
           (fst (open_allocate ex_pipeline_quant ex_world),
            \<lparr>constructed = [?desc], live_pipelines = 1, element_refs = 3, live_handles = 1\<rparr>)"
    by (simp add: open_allocate_def ex_world_def)
  have oc: "open_construct ex_env_quant ?desc (Some ex_info_mnist_in) (Some ex_info_mnist_out)
      ex_world =
     Returns (ML_ERROR_NONE, Some (Some ex_single_quant),
       \<lparr>constructed = [?desc], live_pipelines = 1, element_refs = 3, live_handles = 1\<rparr>)"
    unfolding open_construct_def c Let_def
    by (simp only: a prod.case ex_configure_quant) simp
  show ?thesis
    by (simp add: ml_single_open_def p r d oc)
qed

lemma ex_from_filter_classifier:
  "ml_single_get_tensors_info_from_filter (pipe ex_single_classifier) True = ex_info_classifier_in"
  by (simp add: ex_single_classifier_def)
     (simp add: ml_single_get_tensors_info_from_filter_def ex_pipeline_classifier_def
        ex_pipeline_def ex_info_classifier_in_def ML_TENSOR_SIZE_LIMIT_def Let_def
        eval_nat_numeral upt_rec)

lemma ex_classifier_differs: "ex_info_classifier_in \<noteq> ex_info_mnist_in"
  by (simp add: ex_info_classifier_in_def ex_info_mnist_in_def)

lemma ex_classifier_live: "single_live ex_single_classifier"
  by (simp add: single_live_def ex_single_classifier_def)

text \<open>
  C6 as stated fails: opened with the input descriptor \<^verbatim>\<open>uint8\<close> 1:28:28:1 and the output
  descriptor \<^verbatim>\<open>float32\<close> 1:10 on a tensorflow-lite model whose filter element reports an
  input of 3:224:224:1, the handle stores the supplied descriptor, and
  \<^verbatim>\<open>ml_single_get_input_info\<close> returns the reported one.
\<close>

theorem describe_returns_supplied_counterexample:
  "ml_single_open (Some None) (Some ''model.tflite'') (Some ex_info_mnist_in) (Some ex_info_mnist_out)
     ML_NNFW_TYPE_ANY 0 ex_env_classifier ex_world =
   Returns (ML_ERROR_NONE, Some (Some ex_single_classifier),
     \<lparr>constructed =
        [''appsrc name=srcx ! tensor_filter name=filterx framework=tensorflow-lite model=model.tflite ! appsink name=sinkx sync=false''],
      live_pipelines = 1, element_refs = 3, live_handles = 1\<rparr>) \<and>
   in_info ex_single_classifier = ex_info_mnist_in \<and>
   ml_single_get_input_info (Some ex_single_classifier) (Some None) =
     Returns (ML_ERROR_NONE, Some (Some ex_info_classifier_in)) \<and>
   ex_info_classifier_in \<noteq> ex_info_mnist_in"
  using ex_open_classifier ex_classifier_differs
        get_tensors_info_live [OF ex_classifier_live, of True None] ex_from_filter_classifier
  by (simp add: ml_single_get_input_info_def) (simp add: ex_single_classifier_def)

theorem describe_queries_filter_witness:
  "single_live ex_single_classifier \<and>
   ml_single_get_input_info (Some ex_single_classifier) (Some None) =
     Returns (ML_ERROR_NONE,
       Some (Some (ml_single_get_tensors_info_from_filter (pipe ex_single_classifier) True))) \<and>
   ml_single_open (Some None) (Some ''libpass.so'') None None ML_NNFW_TYPE_ANY 0 ex_env ex_world =
     Returns (ML_ERROR_NONE, Some (Some ex_single),
       \<lparr>constructed =
          [''appsrc name=srcx ! tensor_filter name=filterx framework=custom model=libpass.so ! appsink name=sinkx sync=false''],
        live_pipelines = 1, element_refs = 3, live_handles = 1\<rparr>) \<and>
   ml_single_get_input_info (Some ex_single) (Some None) =
     Returns (ML_ERROR_NONE, Some (Some (in_info ex_single))) \<and>
   ml_single_open (Some None) (Some ''model.tflite'') (Some ex_info_mnist_in) (Some ex_info_mnist_out)
     ML_NNFW_TYPE_ANY 0 ex_env_classifier ex_world =
   Returns (ML_ERROR_NONE, Some (Some ex_single_classifier),
     \<lparr>constructed =
        [''appsrc name=srcx ! tensor_filter name=filterx framework=tensorflow-lite model=model.tflite ! appsink name=sinkx sync=false''],
      live_pipelines = 1, element_refs = 3, live_handles = 1\<rparr>) \<and>
   in_info ex_single_classifier = ex_info_mnist_in"
proof -
  note t1 = describe_queries_filter [of ex_single_classifier True None
      "Some None" "Some ''libpass.so''" None ML_NNFW_TYPE_ANY 0 ex_env ex_world ex_single]
  note t2 = describe_queries_filter [where single = "Some None" and model = "Some ''model.tflite''"
      and D = ex_info_mnist_in and output_info = "Some ex_info_mnist_out"
      and nnfw = ML_NNFW_TYPE_ANY and hw = 0 and env = ex_env_classifier and w = ex_world
      and ?h0.0 = ex_single_classifier]
  from t1 ex_classifier_live
  have a: "ml_single_get_input_info (Some ex_single_classifier) (Some None) =
     Returns (ML_ERROR_NONE,
       Some (Some (ml_single_get_tensors_info_from_filter (pipe ex_single_classifier) True)))"
    by blast
  from t1 ex_open
  have b: "ml_single_get_input_info (Some ex_single) (Some None) =
     Returns (ML_ERROR_NONE, Some (Some (in_info ex_single)))"
    by blast
  from t2 ex_open_classifier
  have c: "in_info ex_single_classifier = ex_info_mnist_in"
    by blast
  from ex_classifier_live a ex_open b ex_open_classifier c show ?thesis by simp
qed

subsection \<open>The state between calls is established by open and kept by every call\<close>

lemma open_establishes_inv:
  assumes "ml_single_open single model ii oi nnfw hw env w = Returns (ML_ERROR_NONE, Some (Some h), w')"
      and "\<And>desc. in_flight (snd (ml_pipeline_construct env desc)) = [] \<and>
                  sink_queue (snd (ml_pipeline_construct env desc)) = []"
  shows "single_live h \<and> single_inv h"
proof -
  from assms(1) obtain desc p where
    c: "ml_pipeline_construct env desc = (ML_ERROR_NONE, p)" and
    k: "open_configure env ii oi (fst (open_allocate p w)) = (ML_ERROR_NONE, h)"
    by (rule open_success_handle)
  from assms(2) [of desc] c have e: "in_flight p = []" "sink_queue p = []" by simp_all
  from open_configure_fields [OF k] e open_success_fields [OF assms(1)]
  show ?thesis by (simp add: single_inv_def open_allocate_fields)
qed

lemma open_set_output_valid:
  assumes "open_set_output oi h = (ML_ERROR_NONE, h')"
      and "\<not> open_info_invalid oi"
  shows "snd (ml_tensors_info_validate (out_info h'))"
  using assms
  by (auto simp: open_set_output_def open_info_invalid_def Let_def
      split: option.splits prod.splits if_splits)

lemma open_set_input_valid:
  assumes "open_set_input ii h = (ML_ERROR_NONE, h')"
      and "\<not> open_info_invalid ii"
  shows "snd (ml_tensors_info_validate (in_info h'))"
  using assms
  by (auto simp: open_set_input_def open_info_invalid_def Let_def
      split: option.splits prod.splits if_splits)

lemma invoke_preserves_inv:
  assumes "single_live h" and "single_inv h"
      and "ml_single_invoke (Some h) input output env = Returns (st, out, Some h')"
  shows "single_live h' \<and> single_inv h'"
proof (cases "input = None \<or> output = None")
  case True
  with assms(3) have "h' = h" by (auto simp: ml_single_invoke_def split: option.splits)
  with assms(1,2) show ?thesis by simp
next
  case False
  then obtain d slot where io: "input = Some d" "output = Some slot" by auto
  show ?thesis
  proof (cases "invoke_validate_input h d = ML_ERROR_NONE")
    case False
    from invoke_invalid_input [OF assms(1) False, of slot env] assms(3) io have "h' = h" by simp
    with assms(1,2) show ?thesis by simp
  next
    case True
    from invoke_normal_form [OF assms(1,2) True, of slot env] assms(3) io assms(1)
    show ?thesis
      by (auto simp: single_live_def single_inv_def drained_def split: if_splits option.splits)
  qed
qed

lemma set_timeout_preserves_inv:
  assumes "single_live h" and "single_inv h"
      and "ml_single_set_timeout (Some h) tmo = Returns (st, Some h')"
  shows "single_live h' \<and> single_inv h'"
  using assms
  by (auto simp: ml_single_set_timeout_def single_live_def single_inv_def split: if_splits)

end
